theory Spec2Isabelle
  imports Complex_Main "HOL-Library.Multiset"
begin

section \<open>Data model (models/Transaction.js)\<close>

text \<open>
  Object ids are kept in their canonical form, 24 lower-case hexadecimal digits.
  Dates are instants in milliseconds since the epoch. Documents are modelled after
  casting, with the types of the schema.

  A string is modelled by the list of its code units, which are taken to be below 256
  (the characters of Latin-1): a HOL character is one code unit and \<open>length\<close> is the
  length JavaScript gives.

  Amounts are JavaScript numbers, that is IEEE doubles. An amount is modelled by the
  rational number it denotes (infinities and NaN are outside the model). Sums, averages
  and differences of doubles are rounded, so the model does not compute them: the
  store's \<open>$sum\<close> and \<open>$avg\<close> and JavaScript's \<open>-\<close> are parameters, \<open>num_sum\<close> and
  \<open>num_avg\<close> on the list of the numbers a group accumulates, in the order of the
  documents, and \<open>num_minus\<close>.
\<close>

type_synonym oid = string
type_synonym instant = int

record number_ops =
  num_sum :: "rat list \<Rightarrow> rat"
  num_avg :: "rat list \<Rightarrow> rat"
  num_minus :: "rat \<Rightarrow> rat \<Rightarrow> rat"

record attachment =
  att_filename :: string
  att_originalName :: string
  att_mimeType :: string
  att_size :: nat
  att_url :: string

record transaction =
  t_id :: oid
  userId :: oid
  ttype :: string
  amount :: rat
  category :: string
  description :: "string option"
  date :: instant
  tags :: "string list"
  isRecurring :: bool
  recurringInterval :: string
  attachments :: "attachment list"
  createdAt :: instant
  updatedAt :: instant

text \<open>The collection of transactions, in the store's natural order.\<close>

type_synonym store = "transaction list"

text \<open>An error response: HTTP status and the \<open>message\<close> field of the JSON body.\<close>

record failure =
  status :: nat
  message :: string

text \<open>
  The truth value JavaScript gives to a string that may be \<open>undefined\<close>: a string is
  true unless it is empty.
\<close>

definition truthy :: "string option \<Rightarrow> bool" where
  "truthy x = (case x of None \<Rightarrow> False | Some s \<Rightarrow> s \<noteq> [])"

section \<open>Statistics (transactionController.js, getTransactionStats)\<close>

text \<open>
  The handler reads the clock and moves the reading with the host's \<open>Date\<close> methods,
  which work in the server's local time zone. They are parameters of the model:
  \<open>setHours0 d\<close> is \<open>d.setHours(0, 0, 0, 0)\<close>, \<open>setDate d n\<close> is \<open>d.setDate(n)\<close>,
  \<open>setMonth d m n\<close> is \<open>d.setMonth(m, n)\<close>, \<open>getDate\<close> and \<open>getDay\<close> are the day of the
  month and of the week, \<open>yearBefore d\<close> is \<open>d.setFullYear(d.getFullYear() - 1)\<close>, and
  \<open>utcYear\<close>, \<open>utcMonth\<close> are the aggregation operators \<open>$year\<close> and \<open>$month\<close>.
\<close>

record calendar =
  setHours0 :: "instant \<Rightarrow> instant"
  setDate :: "instant \<Rightarrow> int \<Rightarrow> instant"
  setMonth :: "instant \<Rightarrow> int \<Rightarrow> int \<Rightarrow> instant"
  getDate :: "instant \<Rightarrow> int"
  getDay :: "instant \<Rightarrow> int"
  yearBefore :: "instant \<Rightarrow> instant"
  utcYear :: "instant \<Rightarrow> int"
  utcMonth :: "instant \<Rightarrow> int"

text \<open>
  The \<open>switch\<close> on the period. \<open>now\<close> and \<open>startOfPeriod\<close> are the two clock readings
  the handler takes (\<open>new Date()\<close> twice); a period that matches no \<open>case\<close> leaves
  \<open>startOfPeriod\<close> as it was read.
\<close>

definition period_start :: "calendar \<Rightarrow> instant \<Rightarrow> instant \<Rightarrow> string \<Rightarrow> instant" where
  "period_start cal now startOfPeriod period =
     (if period = ''today'' then setHours0 cal startOfPeriod
      else if period = ''week'' then
        setHours0 cal (setDate cal startOfPeriod (getDate cal now - getDay cal now))
      else if period = ''month'' then setHours0 cal (setDate cal startOfPeriod 1)
      else if period = ''year'' then setHours0 cal (setMonth cal startOfPeriod 0 1)
      else startOfPeriod)"

text \<open>
  \<open>dateFilter\<close>: \<open>None\<close> is the empty filter \<open>{}\<close>, \<open>Some s\<close> is
  \<open>{ date: { $gte: s } }\<close>. The query parameter defaults to \<open>'all'\<close>.
\<close>

definition dateFilter :: "calendar \<Rightarrow> instant \<Rightarrow> instant \<Rightarrow> string option \<Rightarrow> instant option" where
  "dateFilter cal now startOfPeriod period_param =
     (let period = (case period_param of None \<Rightarrow> ''all'' | Some p \<Rightarrow> p)
      in if period \<noteq> ''all'' then Some (period_start cal now startOfPeriod period) else None)"

definition date_matches :: "instant option \<Rightarrow> transaction \<Rightarrow> bool" where
  "date_matches df t = (case df of None \<Rightarrow> True | Some s \<Rightarrow> s \<le> date t)"

text \<open>The \<open>$match\<close> stage of the overall and the category pipelines.\<close>

definition stats_match :: "oid \<Rightarrow> instant option \<Rightarrow> store \<Rightarrow> transaction list" where
  "stats_match uid df db = filter (\<lambda>t. userId t = uid \<and> date_matches df t) db"

record stats =
  totalIncome :: rat
  totalExpenses :: rat
  totalTransactions :: nat
  avgTransactionAmount :: rat
  minAmount :: rat
  maxAmount :: rat
  netAmount :: rat

text \<open>
  The \<open>$group\<close> stage with \<open>_id: null\<close>: no group for no document, one group otherwise.
  The group has no \<open>netAmount\<close> yet; it is a record of the six accumulators.
\<close>

record stats_group =
  g_totalIncome :: rat
  g_totalExpenses :: rat
  g_totalTransactions :: nat
  g_avgTransactionAmount :: rat
  g_minAmount :: rat
  g_maxAmount :: rat

definition cond_amount :: "string \<Rightarrow> transaction \<Rightarrow> rat" where
  "cond_amount ty t = (if ttype t = ty then amount t else 0)"

definition group_all :: "number_ops \<Rightarrow> transaction list \<Rightarrow> stats_group list" where
  "group_all ops ts =
     (case ts of
        [] \<Rightarrow> []
      | t # rest \<Rightarrow>
          [\<lparr> g_totalIncome = num_sum ops (map (cond_amount ''income'') ts),
             g_totalExpenses = num_sum ops (map (cond_amount ''expense'') ts),
             g_totalTransactions = length ts,
             g_avgTransactionAmount = num_avg ops (map amount ts),
             g_minAmount = fold min (map amount rest) (amount t),
             g_maxAmount = fold max (map amount rest) (amount t) \<rparr>])"

text \<open>
  Category breakdown: \<open>$group\<close> by category (groups in order of first occurrence),
  \<open>$sort\<close> by total descending, \<open>$limit\<close> 10.
\<close>

record category_stat =
  cs_id :: string
  cs_total :: rat
  cs_count :: nat
  cs_avgAmount :: rat

definition category_group :: "number_ops \<Rightarrow> transaction list \<Rightarrow> string \<Rightarrow> category_stat" where
  "category_group ops ts c =
     (let g = filter (\<lambda>t. category t = c) ts
      in \<lparr> cs_id = c, cs_total = num_sum ops (map amount g), cs_count = length g,
            cs_avgAmount = num_avg ops (map amount g) \<rparr>)"

text \<open>
  The store's \<open>$sort\<close> is modelled as a stable insertion sort; \<open>le a b\<close> says that
  \<open>a\<close> may stand before \<open>b\<close>. The order the store gives to documents with equal keys
  is not specified by the store; the model keeps their order.
\<close>

fun insort_by :: "('a \<Rightarrow> 'a \<Rightarrow> bool) \<Rightarrow> 'a \<Rightarrow> 'a list \<Rightarrow> 'a list" where
  "insort_by le x [] = [x]"
| "insort_by le x (y # ys) = (if le x y then x # y # ys else y # insort_by le x ys)"

definition sort_by :: "('a \<Rightarrow> 'a \<Rightarrow> bool) \<Rightarrow> 'a list \<Rightarrow> 'a list" where
  "sort_by le xs = foldr (insort_by le) xs []"

definition categoryStats_of :: "number_ops \<Rightarrow> transaction list \<Rightarrow> category_stat list" where
  "categoryStats_of ops ts =
     take 10 (sort_by (\<lambda>a b. cs_total b \<le> cs_total a)
                (map (category_group ops ts) (remdups (map category ts))))"

text \<open>
  Monthly breakdown of the trailing year: \<open>$match\<close> on the owner and on
  \<open>date \<ge> yearAgo\<close>, \<open>$group\<close> by UTC year and month, \<open>$sort\<close> by year, then month.
\<close>

record month_stat =
  ms_year :: int
  ms_month :: int
  ms_income :: rat
  ms_expenses :: rat

definition month_group ::
  "number_ops \<Rightarrow> calendar \<Rightarrow> transaction list \<Rightarrow> int \<times> int \<Rightarrow> month_stat" where
  "month_group ops cal ts ym =
     (let g = filter (\<lambda>t. (utcYear cal (date t), utcMonth cal (date t)) = ym) ts
      in \<lparr> ms_year = fst ym, ms_month = snd ym,
            ms_income = num_sum ops (map (cond_amount ''income'') g),
            ms_expenses = num_sum ops (map (cond_amount ''expense'') g) \<rparr>)"

definition ym_le :: "month_stat \<Rightarrow> month_stat \<Rightarrow> bool" where
  "ym_le x y \<longleftrightarrow> ms_year x < ms_year y \<or> (ms_year x = ms_year y \<and> ms_month x \<le> ms_month y)"

definition monthlyStats_of ::
  "number_ops \<Rightarrow> calendar \<Rightarrow> instant \<Rightarrow> oid \<Rightarrow> store \<Rightarrow> month_stat list" where
  "monthlyStats_of ops cal yearAgo uid db =
     (let ts = filter (\<lambda>t. userId t = uid \<and> yearAgo \<le> date t) db
      in sort_by ym_le
           (map (month_group ops cal ts)
              (remdups (map (\<lambda>t. (utcYear cal (date t), utcMonth cal (date t))) ts))))"

record stats_response =
  r_stats :: stats
  r_categoryStats :: "category_stat list"
  r_monthlyStats :: "month_stat list"

definition zero_stats :: stats where
  "zero_stats =
     \<lparr> totalIncome = 0, totalExpenses = 0, totalTransactions = 0, avgTransactionAmount = 0,
       minAmount = 0, maxAmount = 0, netAmount = 0 \<rparr>"

text \<open>
  The handler. \<open>now\<close>, \<open>startOfPeriod\<close> and \<open>clockThree\<close> are its clock readings, in the
  order it takes them. The three pipelines run before the test on \<open>stats.length\<close>.
\<close>

definition getTransactionStats ::
  "number_ops \<Rightarrow> calendar \<Rightarrow> instant \<Rightarrow> instant \<Rightarrow> instant \<Rightarrow> store \<Rightarrow> oid \<Rightarrow>
     string option \<Rightarrow> stats_response" where
  "getTransactionStats ops cal now startOfPeriod clockThree db uid period_param =
     (let df = dateFilter cal now startOfPeriod period_param;
          stats = group_all ops (stats_match uid df db);
          categoryStats = categoryStats_of ops (stats_match uid df db);
          monthlyStats = monthlyStats_of ops cal (yearBefore cal clockThree) uid db
      in case stats of
           [] \<Rightarrow> \<lparr> r_stats = zero_stats, r_categoryStats = [], r_monthlyStats = [] \<rparr>
         | stat # _ \<Rightarrow>
             \<lparr> r_stats =
                 \<lparr> totalIncome = g_totalIncome stat, totalExpenses = g_totalExpenses stat,
                   totalTransactions = g_totalTransactions stat,
                   avgTransactionAmount = g_avgTransactionAmount stat,
                   minAmount = g_minAmount stat, maxAmount = g_maxAmount stat,
                   netAmount = num_minus ops (g_totalIncome stat) (g_totalExpenses stat) \<rparr>,
               r_categoryStats = categoryStats, r_monthlyStats = monthlyStats \<rparr>)"

section \<open>Casting and validation (Mongoose, by the schema)\<close>

text \<open>
  A string is cast to an ObjectId when it is 24 hexadecimal digits, or 12 bytes (which
  stand for the id whose hexadecimal form spells them); any other string raises a
  CastError. The result is the canonical form.
\<close>

definition hex_digits :: string where
  "hex_digits = ''0123456789abcdef''"

definition lower_hex :: "char \<Rightarrow> char" where
  "lower_hex c =
     (case map_of (zip ''ABCDEF'' ''abcdef'') c of None \<Rightarrow> c | Some l \<Rightarrow> l)"

definition is_hex :: "char \<Rightarrow> bool" where
  "is_hex c \<longleftrightarrow> lower_hex c \<in> set hex_digits"

definition hex_of_byte :: "char \<Rightarrow> string" where
  "hex_of_byte c =
     [hex_digits ! ((of_char c :: nat) div 16), hex_digits ! ((of_char c :: nat) mod 16)]"

definition castObjectId :: "string \<Rightarrow> oid option" where
  "castObjectId s =
     (if length s = 24 \<and> list_all is_hex s then Some (map lower_hex s)
      else if length s = 12 then Some (concat (map hex_of_byte s))
      else None)"

text \<open>
  The \<open>trim\<close> setter of the schema's strings is \<open>String.prototype.trim\<close>. Of the
  code units below 256 it strips the white space and the line terminators: TAB, LF,
  VT, FF, CR, the space and the no-break space U+00A0.
\<close>

definition is_space :: "char \<Rightarrow> bool" where
  "is_space c \<longleftrightarrow>
     c \<in> set [CHR 0x09, CHR 0x0A, CHR 0x0B, CHR 0x0C, CHR 0x0D, CHR 0x20, CHR 0xA0]"

definition trim :: "string \<Rightarrow> string" where
  "trim s = rev (dropWhile is_space (rev (dropWhile is_space s)))"

text \<open>
  The \<open>lowercase\<close> setter is \<open>String.prototype.toLowerCase\<close>. Of the code units below
  256 it changes the letters A to Z and the letters U+00C0 to U+00DE (without the
  multiplication sign U+00D7), each to the code unit 32 above it.
\<close>

definition upper_letters :: string where
  "upper_letters =
     ''ABCDEFGHIJKLMNOPQRSTUVWXYZ'' @
     [CHR 0xC0, CHR 0xC1, CHR 0xC2, CHR 0xC3, CHR 0xC4, CHR 0xC5, CHR 0xC6, CHR 0xC7, CHR
      0xC8, CHR 0xC9, CHR 0xCA, CHR 0xCB, CHR 0xCC, CHR 0xCD, CHR 0xCE, CHR 0xCF, CHR
      0xD0, CHR 0xD1, CHR 0xD2, CHR 0xD3, CHR 0xD4, CHR 0xD5, CHR 0xD6, CHR 0xD8, CHR
      0xD9, CHR 0xDA, CHR 0xDB, CHR 0xDC, CHR 0xDD, CHR 0xDE]"

definition lower_letters :: string where
  "lower_letters =
     ''abcdefghijklmnopqrstuvwxyz'' @
     [CHR 0xE0, CHR 0xE1, CHR 0xE2, CHR 0xE3, CHR 0xE4, CHR 0xE5, CHR 0xE6, CHR 0xE7, CHR
      0xE8, CHR 0xE9, CHR 0xEA, CHR 0xEB, CHR 0xEC, CHR 0xED, CHR 0xEE, CHR 0xEF, CHR
      0xF0, CHR 0xF1, CHR 0xF2, CHR 0xF3, CHR 0xF4, CHR 0xF5, CHR 0xF6, CHR 0xF8, CHR
      0xF9, CHR 0xFA, CHR 0xFB, CHR 0xFC, CHR 0xFD, CHR 0xFE]"

definition lower_char :: "char \<Rightarrow> char" where
  "lower_char c =
     (case map_of (zip upper_letters lower_letters) c of None \<Rightarrow> c | Some l \<Rightarrow> l)"

definition toLowerCase :: "string \<Rightarrow> string" where
  "toLowerCase s = map lower_char s"

text \<open>
  The eight fields both handlers read from \<open>req.body\<close>; \<open>None\<close> is \<open>undefined\<close>.
  Values are modelled with the type the schema casts them to (a date is the instant
  its string denotes). A value that the schema cannot cast, and a date that is \<open>null\<close>
  or the empty string, which the schema casts to \<open>null\<close>, are outside the model: every
  stored document has a date.
\<close>

record tx_body =
  b_type :: "string option"
  b_amount :: "rat option"
  b_category :: "string option"
  b_description :: "string option"
  b_tags :: "string list option"
  b_isRecurring :: "bool option"
  b_recurringInterval :: "string option"
  b_date :: "instant option"

text \<open>
  The validators of the schema, on values after the setters: \<open>enum\<close> for type and
  recurringInterval, \<open>min: 0.01\<close> and the custom validator \<open>v > 0\<close> for amount,
  \<open>required\<close> (a string must not be empty) and \<open>maxlength\<close> for category,
  \<open>maxlength\<close> for description and for each tag.
\<close>

definition valid_type :: "string \<Rightarrow> bool" where
  "valid_type ty \<longleftrightarrow> ty = ''income'' \<or> ty = ''expense''"

definition valid_amount :: "rat \<Rightarrow> bool" where
  "valid_amount v \<longleftrightarrow> 1 / 100 \<le> v \<and> v > 0"

definition valid_category :: "string \<Rightarrow> bool" where
  "valid_category c \<longleftrightarrow> c \<noteq> [] \<and> length c \<le> 50"

definition valid_description :: "string \<Rightarrow> bool" where
  "valid_description d \<longleftrightarrow> length d \<le> 200"

definition valid_tags :: "string list \<Rightarrow> bool" where
  "valid_tags ts \<longleftrightarrow> list_all (\<lambda>t. length t \<le> 20) ts"

definition valid_interval :: "string \<Rightarrow> bool" where
  "valid_interval r \<longleftrightarrow> r = ''daily'' \<or> r = ''weekly'' \<or> r = ''monthly'' \<or> r = ''yearly''"

definition opt_all :: "('a \<Rightarrow> bool) \<Rightarrow> 'a option \<Rightarrow> bool" where
  "opt_all P x = (case x of None \<Rightarrow> True | Some v \<Rightarrow> P v)"

text \<open>The validators of the paths a body supplies, after the setters.\<close>

definition supplied_valid :: "tx_body \<Rightarrow> bool" where
  "supplied_valid b \<longleftrightarrow>
     opt_all valid_type (b_type b) \<and> opt_all valid_amount (b_amount b) \<and>
     opt_all (\<lambda>c. valid_category (trim c)) (b_category b) \<and>
     opt_all (\<lambda>d. valid_description (trim d)) (b_description b) \<and>
     opt_all (\<lambda>ts. valid_tags (map trim ts)) (b_tags b) \<and>
     opt_all valid_interval (b_recurringInterval b)"

section \<open>Transactions: create, read, update, delete (transactionController.js)\<close>

text \<open>
  \<open>createTransaction\<close>. \<open>new_id\<close> is the ObjectId the new document gets and \<open>now\<close> the
  clock reading. \<open>save()\<close> applies the defaults and the setters and runs the validators,
  the required paths included; a validation error is caught and answered with 500.
  The success response has status 201 and carries the document.
\<close>

definition new_transaction :: "instant \<Rightarrow> oid \<Rightarrow> oid \<Rightarrow> tx_body \<Rightarrow> transaction option" where
  "new_transaction now new_id uid b =
     (case (b_type b, b_amount b, b_category b) of
        (Some ty, Some a, Some c) \<Rightarrow>
          if supplied_valid b then
            Some \<lparr> t_id = new_id, userId = uid, ttype = ty, amount = a, category = trim c,
                   description = map_option trim (b_description b),
                   date = (case b_date b of None \<Rightarrow> now | Some d \<Rightarrow> d),
                   tags = (case b_tags b of None \<Rightarrow> [] | Some ts \<Rightarrow> map trim ts),
                   isRecurring = (case b_isRecurring b of None \<Rightarrow> False | Some r \<Rightarrow> r),
                   recurringInterval =
                     (case b_recurringInterval b of None \<Rightarrow> ''monthly'' | Some r \<Rightarrow> r),
                   attachments = [], createdAt = now, updatedAt = now \<rparr>
          else None
      | _ \<Rightarrow> None)"

definition createTransaction ::
  "instant \<Rightarrow> oid \<Rightarrow> store \<Rightarrow> oid \<Rightarrow> tx_body \<Rightarrow> (failure + transaction) \<times> store" where
  "createTransaction now new_id db uid b =
     (case new_transaction now new_id uid b of
        None \<Rightarrow> (Inl \<lparr> status = 500, message = ''Error creating transaction'' \<rparr>, db)
      | Some newTransaction \<Rightarrow> (Inr newTransaction, db @ [newTransaction]))"

text \<open>\<open>getTransactionById\<close>: \<open>findOne({ _id: id, userId: req.userId })\<close>.\<close>

definition owned_with_id :: "oid \<Rightarrow> oid \<Rightarrow> transaction \<Rightarrow> bool" where
  "owned_with_id i uid t \<longleftrightarrow> t_id t = i \<and> userId t = uid"

definition getTransactionById :: "store \<Rightarrow> oid \<Rightarrow> string \<Rightarrow> failure + transaction" where
  "getTransactionById db uid id_param =
     (case castObjectId id_param of
        None \<Rightarrow> Inl \<lparr> status = 500, message = ''Error fetching transaction'' \<rparr>
      | Some i \<Rightarrow>
          (case find (owned_with_id i uid) db of
             None \<Rightarrow> Inl \<lparr> status = 404, message = ''Transaction not found'' \<rparr>
           | Some transaction \<Rightarrow> Inr transaction))"

text \<open>
  \<open>updateTransaction\<close>. \<open>updateData\<close> holds the supplied fields;
  \<open>findOneAndUpdate\<close> casts the id and the update, runs the validators of the supplied
  paths (\<open>runValidators\<close>), sets them on the first matching document and, the schema
  having \<open>timestamps\<close>, refreshes \<open>updatedAt\<close>. \<open>new: true\<close> returns the updated document.
\<close>

definition apply_update :: "instant \<Rightarrow> tx_body \<Rightarrow> transaction \<Rightarrow> transaction" where
  "apply_update now updateData t =
     t \<lparr> ttype := (case b_type updateData of None \<Rightarrow> ttype t | Some v \<Rightarrow> v),
         amount := (case b_amount updateData of None \<Rightarrow> amount t | Some v \<Rightarrow> v),
         category := (case b_category updateData of None \<Rightarrow> category t | Some v \<Rightarrow> trim v),
         description :=
           (case b_description updateData of None \<Rightarrow> description t | Some v \<Rightarrow> Some (trim v)),
         tags := (case b_tags updateData of None \<Rightarrow> tags t | Some v \<Rightarrow> map trim v),
         isRecurring := (case b_isRecurring updateData of None \<Rightarrow> isRecurring t | Some v \<Rightarrow> v),
         recurringInterval :=
           (case b_recurringInterval updateData of None \<Rightarrow> recurringInterval t | Some v \<Rightarrow> v),
         date := (case b_date updateData of None \<Rightarrow> date t | Some v \<Rightarrow> v),
         updatedAt := now \<rparr>"

fun update_first :: "('a \<Rightarrow> bool) \<Rightarrow> ('a \<Rightarrow> 'a) \<Rightarrow> 'a list \<Rightarrow> 'a list" where
  "update_first P f [] = []"
| "update_first P f (x # xs) = (if P x then f x # xs else x # update_first P f xs)"

definition updateTransaction ::
  "instant \<Rightarrow> store \<Rightarrow> oid \<Rightarrow> string \<Rightarrow> tx_body \<Rightarrow> (failure + transaction) \<times> store" where
  "updateTransaction now db uid id_param updateData =
     (case castObjectId id_param of
        None \<Rightarrow> (Inl \<lparr> status = 500, message = ''Error updating transaction'' \<rparr>, db)
      | Some i \<Rightarrow>
          if \<not> supplied_valid updateData then
            (Inl \<lparr> status = 500, message = ''Error updating transaction'' \<rparr>, db)
          else
            (case find (owned_with_id i uid) db of
               None \<Rightarrow> (Inl \<lparr> status = 404, message = ''Transaction not found'' \<rparr>, db)
             | Some t \<Rightarrow>
                 (Inr (apply_update now updateData t),
                  update_first (owned_with_id i uid) (apply_update now updateData) db)))"

text \<open>\<open>deleteTransaction\<close>: \<open>findOneAndDelete\<close> removes the first matching document.\<close>

fun remove_first :: "('a \<Rightarrow> bool) \<Rightarrow> 'a list \<Rightarrow> 'a list" where
  "remove_first P [] = []"
| "remove_first P (x # xs) = (if P x then xs else x # remove_first P xs)"

definition deleteTransaction :: "store \<Rightarrow> oid \<Rightarrow> string \<Rightarrow> (failure + unit) \<times> store" where
  "deleteTransaction db uid id_param =
     (case castObjectId id_param of
        None \<Rightarrow> (Inl \<lparr> status = 500, message = ''Error deleting transaction'' \<rparr>, db)
      | Some i \<Rightarrow>
          (case find (owned_with_id i uid) db of
             None \<Rightarrow> (Inl \<lparr> status = 404, message = ''Transaction not found'' \<rparr>, db)
           | Some deleted \<Rightarrow> (Inr (), remove_first (owned_with_id i uid) db)))"

text \<open>
  \<open>bulkDeleteTransactions\<close>. \<open>req.body.transactionIds\<close> is any JSON value: an array of
  strings, or something else. \<open>deleteMany\<close> casts every listed id and removes every
  document of the caller whose id is listed. The success response interpolates
  \<open>result.deletedCount\<close> into its message; the model returns the number.
\<close>

datatype ids_field = NotAnArray | IdArray "string list"

fun cast_all :: "string list \<Rightarrow> oid list option" where
  "cast_all [] = Some []"
| "cast_all (s # ss) =
     (case castObjectId s of
        None \<Rightarrow> None
      | Some i \<Rightarrow> (case cast_all ss of None \<Rightarrow> None | Some is \<Rightarrow> Some (i # is)))"

definition bulk_selected :: "oid list \<Rightarrow> oid \<Rightarrow> transaction \<Rightarrow> bool" where
  "bulk_selected ids uid t \<longleftrightarrow> t_id t \<in> set ids \<and> userId t = uid"

definition bulkDeleteTransactions :: "store \<Rightarrow> oid \<Rightarrow> ids_field \<Rightarrow> (failure + nat) \<times> store" where
  "bulkDeleteTransactions db uid transactionIds =
     (case transactionIds of
        NotAnArray \<Rightarrow> (Inl \<lparr> status = 400, message = ''Transaction IDs array is required'' \<rparr>, db)
      | IdArray ss \<Rightarrow>
          if ss = [] then
            (Inl \<lparr> status = 400, message = ''Transaction IDs array is required'' \<rparr>, db)
          else
            (case cast_all ss of
               None \<Rightarrow> (Inl \<lparr> status = 500, message = ''Error deleting transactions'' \<rparr>, db)
             | Some ids \<Rightarrow>
                 (Inr (length (filter (bulk_selected ids uid) db)),
                  filter (\<lambda>t. \<not> bulk_selected ids uid t) db)))"

text \<open>
  \<open>getTransactionCategories\<close>: \<open>$match\<close> on the owner, \<open>$group\<close> by category,
  \<open>$sort\<close> by count descending.
\<close>

record category_usage =
  cu_id :: string
  cu_count :: nat
  cu_totalAmount :: rat
  cu_avgAmount :: rat

definition usage_group :: "number_ops \<Rightarrow> transaction list \<Rightarrow> string \<Rightarrow> category_usage" where
  "usage_group ops ts c =
     (let g = filter (\<lambda>t. category t = c) ts
      in \<lparr> cu_id = c, cu_count = length g, cu_totalAmount = num_sum ops (map amount g),
            cu_avgAmount = num_avg ops (map amount g) \<rparr>)"

definition getTransactionCategories :: "number_ops \<Rightarrow> store \<Rightarrow> oid \<Rightarrow> category_usage list" where
  "getTransactionCategories ops db uid =
     (let ts = filter (\<lambda>t. userId t = uid) db
      in sort_by (\<lambda>a b. cu_count b \<le> cu_count a)
           (map (usage_group ops ts) (remdups (map category ts))))"

section \<open>Listing with filters and pages (transactionController.js, getTransactions)\<close>

text \<open>
  What the handler takes from its libraries is a parameter of the model:
  \<open>regex_i p\<close> is the case-insensitive regular expression \<open>p\<close> as a test on strings
  (\<open>None\<close> when \<open>p\<close> is not a regular expression, which raises), \<open>parseFloat\<close> and
  \<open>parseDate\<close> are \<open>parseFloat\<close> and \<open>new Date\<close> (\<open>None\<close> for \<open>NaN\<close> and for an invalid
  date, which the query refuses to cast), and \<open>field_le f\<close> is the store's ascending
  order of documents by the field named \<open>f\<close>.
\<close>

record query_env =
  regex_i :: "string \<Rightarrow> (string \<Rightarrow> bool) option"
  parseFloat :: "string \<Rightarrow> rat option"
  parseDate :: "string \<Rightarrow> instant option"
  field_le :: "string \<Rightarrow> transaction \<Rightarrow> transaction \<Rightarrow> bool"

text \<open>
  \<open>req.query\<close>. \<open>None\<close> is \<open>undefined\<close>. \<open>q_page\<close> and \<open>q_limit\<close> hold what
  \<open>parseInt\<close> makes of the parameter, taken to be a number.
\<close>

record list_query =
  q_page :: "int option"
  q_limit :: "int option"
  q_type :: "string option"
  q_category :: "string option"
  q_startDate :: "string option"
  q_endDate :: "string option"
  q_minAmount :: "string option"
  q_maxAmount :: "string option"
  q_search :: "string option"
  q_sortBy :: "string option"
  q_sortOrder :: "string option"

text \<open>
  Each part of the filter is \<open>None\<close> when building or casting it raises, and the
  condition it puts on a document otherwise.
\<close>

definition type_cond :: "list_query \<Rightarrow> (transaction \<Rightarrow> bool) option" where
  "type_cond q =
     (case q_type q of
        None \<Rightarrow> Some (\<lambda>t. True)
      | Some ty \<Rightarrow> if ty = [] then Some (\<lambda>t. True) else Some (\<lambda>t. ttype t = ty))"

definition category_cond :: "query_env \<Rightarrow> list_query \<Rightarrow> (transaction \<Rightarrow> bool) option" where
  "category_cond env q =
     (case q_category q of
        None \<Rightarrow> Some (\<lambda>t. True)
      | Some c \<Rightarrow>
          if c = [] then Some (\<lambda>t. True)
          else (case regex_i env c of None \<Rightarrow> None | Some m \<Rightarrow> Some (\<lambda>t. m (category t))))"

definition parse_bound :: "(string \<Rightarrow> 'a option) \<Rightarrow> string option \<Rightarrow> 'a option option" where
  "parse_bound parse x =
     (case x of
        None \<Rightarrow> Some None
      | Some s \<Rightarrow>
          if s = [] then Some None
          else (case parse s of None \<Rightarrow> None | Some v \<Rightarrow> Some (Some v)))"

definition in_range :: "'a::ord option \<Rightarrow> 'a option \<Rightarrow> 'a \<Rightarrow> bool" where
  "in_range lo hi v \<longleftrightarrow>
     (case lo of None \<Rightarrow> True | Some l \<Rightarrow> l \<le> v) \<and> (case hi of None \<Rightarrow> True | Some h \<Rightarrow> v \<le> h)"

definition date_cond :: "query_env \<Rightarrow> list_query \<Rightarrow> (transaction \<Rightarrow> bool) option" where
  "date_cond env q =
     (if truthy (q_startDate q) \<or> truthy (q_endDate q) then
        (case (parse_bound (parseDate env) (q_startDate q),
               parse_bound (parseDate env) (q_endDate q)) of
           (Some lo, Some hi) \<Rightarrow> Some (\<lambda>t. in_range lo hi (date t))
         | _ \<Rightarrow> None)
      else Some (\<lambda>t. True))"

definition amount_cond :: "query_env \<Rightarrow> list_query \<Rightarrow> (transaction \<Rightarrow> bool) option" where
  "amount_cond env q =
     (if truthy (q_minAmount q) \<or> truthy (q_maxAmount q) then
        (case (parse_bound (parseFloat env) (q_minAmount q),
               parse_bound (parseFloat env) (q_maxAmount q)) of
           (Some lo, Some hi) \<Rightarrow> Some (\<lambda>t. in_range lo hi (amount t))
         | _ \<Rightarrow> None)
      else Some (\<lambda>t. True))"

definition search_cond :: "query_env \<Rightarrow> list_query \<Rightarrow> (transaction \<Rightarrow> bool) option" where
  "search_cond env q =
     (case q_search q of
        None \<Rightarrow> Some (\<lambda>t. True)
      | Some s \<Rightarrow>
          if s = [] then Some (\<lambda>t. True)
          else
            (case regex_i env s of
               None \<Rightarrow> None
             | Some m \<Rightarrow>
                 Some (\<lambda>t. (case description t of None \<Rightarrow> False | Some d \<Rightarrow> m d) \<or>
                           m (category t) \<or> list_ex m (tags t))))"

text \<open>The filter object: the owner first, then the optional parts, all conjoined.\<close>

definition build_filter :: "query_env \<Rightarrow> oid \<Rightarrow> list_query \<Rightarrow> (transaction \<Rightarrow> bool) option" where
  "build_filter env uid q =
     (case (type_cond q, category_cond env q, date_cond env q, amount_cond env q,
            search_cond env q) of
        (Some c1, Some c2, Some c3, Some c4, Some c5) \<Rightarrow>
          Some (\<lambda>t. userId t = uid \<and> c1 t \<and> c2 t \<and> c3 t \<and> c4 t \<and> c5 t)
      | _ \<Rightarrow> None)"

text \<open>\<open>sort[sortBy] = sortOrder === 'desc' ? -1 : 1\<close>, with the defaults of the handler.\<close>

definition sort_order :: "query_env \<Rightarrow> list_query \<Rightarrow> transaction \<Rightarrow> transaction \<Rightarrow> bool" where
  "sort_order env q =
     (let sortBy = (case q_sortBy q of None \<Rightarrow> ''date'' | Some f \<Rightarrow> f);
          sortOrder = (case q_sortOrder q of None \<Rightarrow> ''desc'' | Some d \<Rightarrow> d)
      in if sortOrder = ''desc'' then (\<lambda>a b. field_le env sortBy b a) else field_le env sortBy)"

text \<open>
  The store's \<open>limit\<close>: 0 is no limit, and a negative number limits to its absolute
  value. The store refuses a negative \<open>skip\<close>.
\<close>

definition apply_limit :: "int \<Rightarrow> 'a list \<Rightarrow> 'a list" where
  "apply_limit n xs = (if n = 0 then xs else take (nat \<bar>n\<bar>) xs)"

text \<open>\<open>Math.ceil(total / limit)\<close> on JavaScript numbers.\<close>

datatype jsnumber = Finite int | Infinity | NaN

definition ceil_div :: "nat \<Rightarrow> int \<Rightarrow> jsnumber" where
  "ceil_div n_total limit =
     (if limit = 0 then (if n_total = 0 then NaN else Infinity)
      else Finite (- ((- int n_total) div limit)))"

definition js_less :: "int \<Rightarrow> jsnumber \<Rightarrow> bool" where
  "js_less p n = (case n of Finite k \<Rightarrow> p < k | Infinity \<Rightarrow> True | NaN \<Rightarrow> False)"

record pagination =
  currentPage :: int
  totalPages :: jsnumber
  totalItems :: nat
  itemsPerPage :: int
  hasNextPage :: bool
  hasPrevPage :: bool

record list_response =
  transactions :: "transaction list"
  pagination :: pagination

text \<open>
  The handler. Every error is caught and answered with 500. (\<open>populate\<close> replaces the
  owner reference of each returned document by the owner's name and email; the model
  returns the documents as stored.)
\<close>

definition getTransactions :: "query_env \<Rightarrow> store \<Rightarrow> oid \<Rightarrow> list_query \<Rightarrow> failure + list_response" where
  "getTransactions env db uid q =
     (let page = (case q_page q of None \<Rightarrow> 1 | Some p \<Rightarrow> p);
          limit = (case q_limit q of None \<Rightarrow> 10 | Some l \<Rightarrow> l);
          skip = (page - 1) * limit
      in case build_filter env uid q of
           None \<Rightarrow> Inl \<lparr> status = 500, message = ''Error fetching transactions'' \<rparr>
         | Some matches \<Rightarrow>
             if skip < 0 then Inl \<lparr> status = 500, message = ''Error fetching transactions'' \<rparr>
             else
               (let found = apply_limit limit
                              (drop (nat skip) (sort_by (sort_order env q) (filter matches db)));
                    n_total = length (filter matches db);
                    pages = ceil_div n_total limit
                in Inr \<lparr> transactions = found,
                         pagination =
                           \<lparr> currentPage = page, totalPages = pages, totalItems = n_total,
                             itemsPerPage = limit, hasNextPage = js_less page pages,
                             hasPrevPage = (page > 1) \<rparr> \<rparr>))"

text \<open>The documents of page \<open>p\<close> of a listing (none when the request fails).\<close>

definition page_items :: "query_env \<Rightarrow> store \<Rightarrow> oid \<Rightarrow> list_query \<Rightarrow> int \<Rightarrow> transaction list" where
  "page_items env db uid q p =
     (case getTransactions env db uid (q\<lparr>q_page := Some p\<rparr>) of
        Inl _ \<Rightarrow> [] | Inr r \<Rightarrow> transactions r)"

section \<open>Tokens and the auth controller (authController.js, authMiddleware.js)\<close>

text \<open>
  The environment variables the server reads. \<open>JWT_EXPIRES_IN\<close> is modelled by the
  span it denotes, in milliseconds.
\<close>

record auth_env =
  JWT_SECRET :: "string option"
  JWT_REFRESH_SECRET :: "string option"
  JWT_EXPIRES_IN :: "int option"
  NODE_ENV :: "string option"

text \<open>
  A token is a string. What matters of it is whether it is a well-formed JWT and, if
  so, its payload and the secret it was signed with. The payloads this program signs
  have an id, a type (refresh tokens only), and the times of issue and of expiry.
  (The library also honours a not-before claim; no token of this program carries one,
  and the model has none.)
\<close>

record jwt_payload =
  p_id :: string
  p_type :: "string option"
  p_iat :: instant
  p_exp :: instant

datatype token = Malformed string | Signed jwt_payload string

datatype verify_error = JsonWebTokenError | TokenExpiredError

text \<open>
  \<open>jwt.sign\<close> and \<open>jwt.verify\<close>. Signing raises without a secret. Verifying raises
  \<open>JsonWebTokenError\<close> for a string that is no JWT, without a secret, and for a
  signature made with another secret, and \<open>TokenExpiredError\<close> from the expiry time on.
\<close>

definition jwt_sign :: "jwt_payload \<Rightarrow> string option \<Rightarrow> token option" where
  "jwt_sign payload secret =
     (case secret of None \<Rightarrow> None | Some k \<Rightarrow> if k = [] then None else Some (Signed payload k))"

definition jwt_verify :: "token \<Rightarrow> string option \<Rightarrow> instant \<Rightarrow> verify_error + jwt_payload" where
  "jwt_verify tok secret now =
     (case tok of
        Malformed _ \<Rightarrow> Inl JsonWebTokenError
      | Signed payload k \<Rightarrow>
          if \<not> truthy secret then Inl JsonWebTokenError
          else if secret \<noteq> Some k then Inl JsonWebTokenError
          else if p_exp payload \<le> now then Inl TokenExpiredError
          else Inr payload)"

text \<open>\<open>a || b\<close> on environment variables.\<close>

definition env_or :: "string option \<Rightarrow> string option \<Rightarrow> string option" where
  "env_or a b = (if truthy a then a else b)"

definition generateToken :: "auth_env \<Rightarrow> instant \<Rightarrow> oid \<Rightarrow> token option" where
  "generateToken env now uid =
     jwt_sign \<lparr> p_id = uid, p_type = None, p_iat = now,
                p_exp = now + (case JWT_EXPIRES_IN env of None \<Rightarrow> 24 * 3600000 | Some d \<Rightarrow> d) \<rparr>
       (JWT_SECRET env)"

definition generateRefreshToken :: "auth_env \<Rightarrow> instant \<Rightarrow> oid \<Rightarrow> token option" where
  "generateRefreshToken env now uid =
     jwt_sign \<lparr> p_id = uid, p_type = Some ''refresh'', p_iat = now,
                p_exp = now + 7 * 24 * 3600000 \<rparr>
       (env_or (JWT_REFRESH_SECRET env) (JWT_SECRET env))"

text \<open>
  Users (models/User.js). The schema gives \<open>email\<close> the setters \<open>lowercase\<close> and \<open>trim\<close>.
  They run on the email of a document that is saved, so stored emails are as the
  setters leave them, and on the email a query filters by.
\<close>

definition email_setters :: "string \<Rightarrow> string" where
  "email_setters e = trim (toLowerCase e)"

record user =
  u_id :: oid
  u_name :: string
  u_email :: string
  u_password :: string
  u_isActive :: bool
  u_lastLogin :: "instant option"
  passwordResetToken :: "string option"
  passwordResetExpires :: "instant option"
  u_updatedAt :: instant

record token_pair =
  tp_token :: token
  tp_refreshToken :: token

text \<open>
  \<open>refreshToken\<close>. \<open>presented\<close> is \<open>req.body.refreshToken\<close>, \<open>None\<close> when it is missing
  or empty. The \<open>catch\<close> answers the two errors of \<open>jwt.verify\<close> with 401 and any other
  error (an id that cannot be cast, signing without a secret) with 500.
\<close>

definition refreshToken ::
  "auth_env \<Rightarrow> instant \<Rightarrow> user list \<Rightarrow> token option \<Rightarrow> failure + token_pair" where
  "refreshToken env now users presented =
     (case presented of
        None \<Rightarrow> Inl \<lparr> status = 400, message = ''Refresh token is required'' \<rparr>
      | Some tok \<Rightarrow>
          (case jwt_verify tok (env_or (JWT_REFRESH_SECRET env) (JWT_SECRET env)) now of
             Inl JsonWebTokenError \<Rightarrow> Inl \<lparr> status = 401, message = ''Invalid refresh token'' \<rparr>
           | Inl TokenExpiredError \<Rightarrow> Inl \<lparr> status = 401, message = ''Refresh token expired'' \<rparr>
           | Inr decoded \<Rightarrow>
               if p_type decoded \<noteq> Some ''refresh'' then
                 Inl \<lparr> status = 401, message = ''Invalid token type'' \<rparr>
               else
                 (case castObjectId (p_id decoded) of
                    None \<Rightarrow> Inl \<lparr> status = 500, message = ''Server error during token refresh'' \<rparr>
                  | Some i \<Rightarrow>
                      (case find (\<lambda>u. u_id u = i) users of
                         None \<Rightarrow> Inl \<lparr> status = 401, message = ''User not found or inactive'' \<rparr>
                       | Some u \<Rightarrow>
                           if \<not> u_isActive u then
                             Inl \<lparr> status = 401, message = ''User not found or inactive'' \<rparr>
                           else
                             (case (generateToken env now (u_id u),
                                    generateRefreshToken env now (u_id u)) of
                                (Some newToken, Some newRefreshToken) \<Rightarrow>
                                  Inr \<lparr> tp_token = newToken, tp_refreshToken = newRefreshToken \<rparr>
                              | _ \<Rightarrow>
                                  Inl \<lparr> status = 500,
                                        message = ''Server error during token refresh'' \<rparr>)))))"

text \<open>
  \<open>forgotPassword\<close>. \<open>sha256\<close> is the hash (hexadecimal digest) and \<open>resetToken\<close> the
  32 random bytes in hexadecimal, both from the crypto library. The response has
  status 200; it is modelled by its message and the \<open>resetToken\<close> field, if any.
  \<open>save()\<close> writes the document back and refreshes \<open>updatedAt\<close>.
\<close>

record forgot_response =
  fr_message :: string
  fr_resetToken :: "string option"

definition forgotPassword ::
  "(string \<Rightarrow> string) \<Rightarrow> auth_env \<Rightarrow> instant \<Rightarrow> string \<Rightarrow> user list \<Rightarrow> string \<Rightarrow>
     forgot_response \<times> user list" where
  "forgotPassword sha256 env now resetToken users email =
     (case find (\<lambda>u. u_email u = email_setters email \<and> u_isActive u) users of
        None \<Rightarrow>
          (\<lparr> fr_message =
                ''If an account with that email exists, a password reset link has been sent'',
              fr_resetToken = None \<rparr>, users)
      | Some found \<Rightarrow>
          (let hashedToken = sha256 resetToken;
               saved = update_first (\<lambda>u. u_id u = u_id found)
                         (\<lambda>u. u \<lparr> passwordResetToken := Some hashedToken,
                                   passwordResetExpires := Some (now + 10 * 60 * 1000),
                                   u_updatedAt := now \<rparr>) users
           in if NODE_ENV env = Some ''development'' then
                (\<lparr> fr_message = ''Password reset link sent'',
                    fr_resetToken = Some resetToken \<rparr>, saved)
              else
                (\<lparr> fr_message =
                      ''If an account with that email exists, a password reset link has been sent'',
                    fr_resetToken = None \<rparr>, saved)))"

text \<open>
  \<open>authMiddleware\<close>. \<open>header\<close> is the token of a \<open>Bearer\<close> authorization header, \<open>None\<close>
  without such a header. A token that verifies with \<open>JWT_SECRET\<close> gives \<open>req.userId\<close>.
\<close>

definition authMiddleware :: "auth_env \<Rightarrow> instant \<Rightarrow> token option \<Rightarrow> failure + string" where
  "authMiddleware env now header =
     (case header of
        None \<Rightarrow> Inl \<lparr> status = 401, message = ''No token, authorization denied'' \<rparr>
      | Some tok \<Rightarrow>
          (case jwt_verify tok (JWT_SECRET env) now of
             Inl _ \<Rightarrow> Inl \<lparr> status = 401, message = ''Token is not valid'' \<rparr>
           | Inr decoded \<Rightarrow> Inr (p_id decoded)))"

section \<open>Routes (routes/transactionRoutes.js)\<close>

text \<open>
  The router tries its routes in the order of their declaration; the first route whose
  method and path match handles the request, and no handler passes the request on.
  A request path is the list of its segments after the mount point
  \<open>/api/transactions\<close>. A literal segment matches without regard to case, \<open>:id\<close>
  matches any segment and binds it. (The rate limiters in front of the handlers, which
  may answer 429, are not modelled.)
\<close>

datatype http_method = GET | POST | PUT | DELETE

datatype route_path = Root | Literal string | Param

datatype handler =
    CreateTransaction | GetTransactions | GetTransactionStats | GetTransactionCategories
  | GetTransactionById | UpdateTransaction | DeleteTransaction | BulkDeleteTransactions

definition transaction_routes :: "(http_method \<times> route_path \<times> handler) list" where
  "transaction_routes =
     [(POST, Root, CreateTransaction),
      (GET, Root, GetTransactions),
      (GET, Literal ''stats'', GetTransactionStats),
      (GET, Literal ''categories'', GetTransactionCategories),
      (GET, Param, GetTransactionById),
      (PUT, Param, UpdateTransaction),
      (DELETE, Param, DeleteTransaction),
      (DELETE, Literal ''bulk'', BulkDeleteTransactions)]"

definition lower_ascii :: "char \<Rightarrow> char" where
  "lower_ascii c =
     (case map_of (zip ''ABCDEFGHIJKLMNOPQRSTUVWXYZ'' ''abcdefghijklmnopqrstuvwxyz'') c of
        None \<Rightarrow> c | Some l \<Rightarrow> l)"

text \<open>\<open>path_match\<close> gives \<open>req.params.id\<close> when the path matches (empty without \<open>:id\<close>).\<close>

fun path_match :: "route_path \<Rightarrow> string list \<Rightarrow> string option" where
  "path_match Root p = (if p = [] then Some [] else None)"
| "path_match (Literal l) p =
     (case p of [s] \<Rightarrow> if map lower_ascii s = l then Some [] else None | _ \<Rightarrow> None)"
| "path_match Param p = (case p of [s] \<Rightarrow> Some s | _ \<Rightarrow> None)"

fun first_route ::
  "http_method \<Rightarrow> string list \<Rightarrow> (http_method \<times> route_path \<times> handler) list \<Rightarrow>
     (handler \<times> string) option" where
  "first_route m p [] = None"
| "first_route m p ((m', rp, h) # rs) =
     (if m = m' then
        (case path_match rp p of Some v \<Rightarrow> Some (h, v) | None \<Rightarrow> first_route m p rs)
      else first_route m p rs)"

definition dispatch :: "http_method \<Rightarrow> string list \<Rightarrow> (handler \<times> string) option" where
  "dispatch m p = first_route m p transaction_routes"

text \<open>
  Modelled from the spec: \<open>validateTransaction\<close> and \<open>handleValidationErrors\<close>
  (middleware/validationMiddleware.js), which stand before \<open>createTransaction\<close> and
  \<open>updateTransaction\<close> in their routes, are not among the sources. The spec says of
  create: "amount must be > 0 or fails with ValidationError", and gives ValidationError
  the status 400. The model refuses a supplied amount that is not greater than 0 and
  lets every other body pass to the handler; the message is not specified.
\<close>

definition validateTransaction :: "tx_body \<Rightarrow> failure option" where
  "validateTransaction b =
     (case b_amount b of
        None \<Rightarrow> None
      | Some a \<Rightarrow> if a > 0 then None else Some \<lparr> status = 400, message = ''Validation failed'' \<rparr>)"

text \<open>The route \<open>POST /\<close>: the validation, then the handler.\<close>

definition route_create ::
  "instant \<Rightarrow> oid \<Rightarrow> store \<Rightarrow> oid \<Rightarrow> tx_body \<Rightarrow> (failure + transaction) \<times> store" where
  "route_create now new_id db uid b =
     (case validateTransaction b of
        Some f \<Rightarrow> (Inl f, db)
      | None \<Rightarrow> createTransaction now new_id db uid b)"

text \<open>The route \<open>PUT /:id\<close>: the validation, then the handler.\<close>

definition route_update ::
  "instant \<Rightarrow> store \<Rightarrow> oid \<Rightarrow> string \<Rightarrow> tx_body \<Rightarrow> (failure + transaction) \<times> store" where
  "route_update now db uid id_param b =
     (case validateTransaction b of
        Some f \<Rightarrow> (Inl f, db)
      | None \<Rightarrow> updateTransaction now db uid id_param b)"

text \<open>
  A request to the router, with the parts of it the handlers read, and the responses.
  The id of a verified token is taken to be a user's id in canonical form.
\<close>

record api_request =
  rq_method :: http_method
  rq_path :: "string list"
  rq_authorization :: "token option"
  rq_query :: list_query
  rq_period :: "string option"
  rq_body :: tx_body
  rq_transactionIds :: ids_field

datatype api_response =
    Failed failure
  | Created transaction
  | Listed list_response
  | Statistics stats_response
  | Categories "category_usage list"
  | Fetched transaction
  | Updated transaction
  | Deleted
  | BulkDeleted nat

record server_ctx =
  c_auth :: auth_env
  c_numbers :: number_ops
  c_query :: query_env
  c_calendar :: calendar
  c_now :: instant
  c_new_id :: oid

definition respond :: "('a \<Rightarrow> api_response) \<Rightarrow> (failure + 'a) \<times> store \<Rightarrow> api_response \<times> store" where
  "respond ok r = (case r of (Inl f, db) \<Rightarrow> (Failed f, db) | (Inr v, db) \<Rightarrow> (ok v, db))"

fun run_handler ::
  "server_ctx \<Rightarrow> store \<Rightarrow> oid \<Rightarrow> handler \<Rightarrow> string \<Rightarrow> api_request \<Rightarrow> api_response \<times> store" where
  "run_handler ctx db uid CreateTransaction v rq =
     respond Created (route_create (c_now ctx) (c_new_id ctx) db uid (rq_body rq))"
| "run_handler ctx db uid GetTransactions v rq =
     respond Listed (getTransactions (c_query ctx) db uid (rq_query rq), db)"
| "run_handler ctx db uid GetTransactionStats v rq =
     (Statistics (getTransactionStats (c_numbers ctx) (c_calendar ctx) (c_now ctx) (c_now ctx)
        (c_now ctx) db uid (rq_period rq)), db)"
| "run_handler ctx db uid GetTransactionCategories v rq =
     (Categories (getTransactionCategories (c_numbers ctx) db uid), db)"
| "run_handler ctx db uid GetTransactionById v rq =
     respond Fetched (getTransactionById db uid v, db)"
| "run_handler ctx db uid UpdateTransaction v rq =
     respond Updated (route_update (c_now ctx) db uid v (rq_body rq))"
| "run_handler ctx db uid DeleteTransaction v rq =
     respond (\<lambda>_. Deleted) (deleteTransaction db uid v)"
| "run_handler ctx db uid BulkDeleteTransactions v rq =
     respond BulkDeleted (bulkDeleteTransactions db uid (rq_transactionIds rq))"

text \<open>
  The router: \<open>authMiddleware\<close> first, then the first matching route. \<open>None\<close> when no
  route matches and the request goes on to the application's later middleware.
\<close>

definition serve :: "server_ctx \<Rightarrow> store \<Rightarrow> api_request \<Rightarrow> (api_response \<times> store) option" where
  "serve ctx db rq =
     (case authMiddleware (c_auth ctx) (c_now ctx) (rq_authorization rq) of
        Inl f \<Rightarrow> Some (Failed f, db)
      | Inr uid \<Rightarrow>
          (case dispatch (rq_method rq) (rq_path rq) of
             None \<Rightarrow> None
           | Some (h, v) \<Rightarrow> Some (run_handler ctx db uid h v rq)))"

section \<open>Client (frontend/src/utils/api.js)\<close>

text \<open>
  The browser's \<open>fetch\<close>, \<open>localStorage\<close> and \<open>window.location\<close>. A request is what
  \<open>fetch\<close> is given: the URL, \<open>options.method\<close> (\<open>None\<close> for \<open>undefined\<close>, which
  stands for GET), the bearer token of the Authorization header, and \<open>options.body\<close>,
  which is a string or, when the client passes \<open>response.body\<close> on, the stream of a
  response. A response has a URL, a status, the JSON in its body (\<open>None\<close> when the body
  is not JSON, so that \<open>response.json()\<close> rejects) and a body stream or none; it has no
  \<open>method\<close> property. The server is a parameter: what it answers to a request after the
  requests sent so far, \<open>None\<close> when the network fails.
\<close>

datatype body_init = Text string | JsonRefreshToken string | ResponseStream

record fetch_request =
  fq_url :: string
  fq_method :: "string option"
  fq_authorization :: "string option"
  fq_body :: "body_init option"

record json_body =
  j_error :: "string option"
  j_message :: "string option"
  j_token :: "string option"
  j_refreshToken :: "string option"

record fetch_response =
  rs_url :: string
  rs_status :: nat
  rs_json :: "json_body option"
  rs_has_body :: bool

type_synonym server = "fetch_request list \<Rightarrow> fetch_request \<Rightarrow> fetch_response option"

record client_state =
  ls_token :: "string option"
  ls_refreshToken :: "string option"
  ls_user :: "string option"
  location_href :: "string option"
  sent :: "fetch_request list"

datatype js_error = ApiError string nat | TypeError | SyntaxError

datatype 'a outcome = Returned 'a | Thrown js_error

definition API_BASE_URL :: string where
  "API_BASE_URL = ''http://localhost:5000/api''"

definition ok :: "fetch_response \<Rightarrow> bool" where
  "ok response \<longleftrightarrow> 200 \<le> rs_status response \<and> rs_status response \<le> 299"

text \<open>
  \<open>fetch\<close> raises a TypeError, and sends nothing, when it is given a body with the
  method GET or HEAD, or a stream that has been read as its body; a network failure is
  a TypeError too. Otherwise the request is sent and the server's response returned.
\<close>

definition js_fetch :: "server \<Rightarrow> client_state \<Rightarrow> fetch_request \<Rightarrow> fetch_response outcome \<times> client_state" where
  "js_fetch srv st rq =
     (if fq_body rq \<noteq> None \<and> fq_method rq \<in> {None, Some ''GET'', Some ''HEAD''} then
        (Thrown TypeError, st)
      else if fq_body rq = Some ResponseStream then (Thrown TypeError, st)
      else
        (case srv (sent st) rq of
           None \<Rightarrow> (Thrown TypeError, st \<lparr> sent := sent st @ [rq] \<rparr>)
         | Some response \<Rightarrow> (Returned response, st \<lparr> sent := sent st @ [rq] \<rparr>)))"

text \<open>\<open>getAuthHeaders\<close>: the Authorization header, when a token is stored.\<close>

definition getAuthHeaders :: "client_state \<Rightarrow> string option" where
  "getAuthHeaders st = (if truthy (ls_token st) then ls_token st else None)"

text \<open>\<open>localStorage.setItem\<close> stores the string of its argument.\<close>

definition stored_string :: "string option \<Rightarrow> string option" where
  "stored_string v = Some (case v of None \<Rightarrow> ''undefined'' | Some s \<Rightarrow> s)"

text \<open>
  \<open>refreshToken\<close> of the client. Without a stored refresh token it returns \<open>false\<close> at
  once; after a refresh that does not succeed it clears the three stored items and
  sends the browser to \<open>/\<close>.
\<close>

definition clear_session :: "client_state \<Rightarrow> client_state" where
  "clear_session st =
     st \<lparr> ls_token := None, ls_refreshToken := None, ls_user := None, location_href := Some ''/'' \<rparr>"

definition client_refreshToken :: "server \<Rightarrow> client_state \<Rightarrow> bool \<times> client_state" where
  "client_refreshToken srv st =
     (case ls_refreshToken st of
        None \<Rightarrow> (False, st)
      | Some stored \<Rightarrow>
          if stored = [] then (False, st)
          else
            (case js_fetch srv st
                    \<lparr> fq_url = API_BASE_URL @ ''/auth/refresh-token'', fq_method = Some ''POST'',
                      fq_authorization = None, fq_body = Some (JsonRefreshToken stored) \<rparr> of
               (Thrown e, st1) \<Rightarrow> (False, clear_session st1)
             | (Returned response, st1) \<Rightarrow>
                 if ok response then
                   (case rs_json response of
                      None \<Rightarrow> (False, clear_session st1)
                    | Some data \<Rightarrow>
                        (True, st1 \<lparr> ls_token := stored_string (j_token data),
                                     ls_refreshToken := stored_string (j_refreshToken data) \<rparr>))
                 else (False, clear_session st1)))"

text \<open>
  \<open>handleResponse\<close> and \<open>retryRequest\<close> call each other without a bound, so the model
  counts the calls of \<open>handleResponse\<close> down from a fuel; \<open>None\<close> is running out of it.
  \<open>handleResponse\<close> calls \<open>retryRequest(response.url, response.method, response.body)\<close>:
  the method is \<open>undefined\<close> and the body is the stream of the response, if it has one.
\<close>

definition first_truthy :: "string option \<Rightarrow> string \<Rightarrow> string" where
  "first_truthy a b = (case a of None \<Rightarrow> b | Some s \<Rightarrow> if s = [] then b else s)"

definition api_error :: "json_body \<Rightarrow> fetch_response \<Rightarrow> js_error" where
  "api_error data response =
     ApiError (first_truthy (j_error data) (first_truthy (j_message data) ''API request failed''))
       (rs_status response)"

function handleResponse ::
    "nat \<Rightarrow> server \<Rightarrow> client_state \<Rightarrow> fetch_response \<Rightarrow> (json_body outcome \<times> client_state) option"
  and retryRequest ::
    "nat \<Rightarrow> server \<Rightarrow> client_state \<Rightarrow> string \<Rightarrow> string option \<Rightarrow> body_init option \<Rightarrow>
       (json_body outcome \<times> client_state) option"
where
  "handleResponse 0 srv st response = None"
| "handleResponse (Suc n) srv st response =
     (case rs_json response of
        None \<Rightarrow> Some (Thrown SyntaxError, st)
      | Some data \<Rightarrow>
          if \<not> ok response then
            if rs_status response = 401 then
              (case client_refreshToken srv st of
                 (True, st1) \<Rightarrow>
                   retryRequest n srv st1 (rs_url response) None
                     (if rs_has_body response then Some ResponseStream else None)
               | (False, st1) \<Rightarrow> Some (Thrown (api_error data response), st1))
            else Some (Thrown (api_error data response), st)
          else Some (Returned data, st))"
| "retryRequest n srv st url method body =
     (case js_fetch srv st
             \<lparr> fq_url = url, fq_method = method, fq_authorization = getAuthHeaders st,
               fq_body = body \<rparr> of
        (Thrown e, st1) \<Rightarrow> Some (Thrown e, st1)
      | (Returned response, st1) \<Rightarrow> handleResponse n srv st1 response)"
  by pat_completeness auto
termination
  by (relation "measure (\<lambda>x. case x of Inl (n, _) \<Rightarrow> 2 * n | Inr (n, _) \<Rightarrow> 2 * n + 1)") auto

text \<open>\<open>apiCall(endpoint, options)\<close>, with the method and the body of \<open>options\<close>.\<close>

definition apiCall ::
  "nat \<Rightarrow> server \<Rightarrow> client_state \<Rightarrow> string \<Rightarrow> string option \<Rightarrow> body_init option \<Rightarrow>
     (json_body outcome \<times> client_state) option" where
  "apiCall fuel srv st endpoint method body =
     (case js_fetch srv st
             \<lparr> fq_url = API_BASE_URL @ endpoint, fq_method = method,
               fq_authorization = getAuthHeaders st, fq_body = body \<rparr> of
        (Thrown e, st1) \<Rightarrow> Some (Thrown e, st1)
      | (Returned response, st1) \<Rightarrow> handleResponse fuel srv st1 response)"

section \<open>Vocabulary for the statistics\<close>

text \<open>
  What the totals need of the arithmetic, and what holds of doubles: the sum of no
  number is 0, a sum is not changed by the entries that are 0, and 0 minus 0 is 0.
\<close>

definition zero_neutral :: "number_ops \<Rightarrow> bool" where
  "zero_neutral ops \<longleftrightarrow>
     num_sum ops [] = 0 \<and>
     (\<forall>xs. num_sum ops (filter (\<lambda>x. x \<noteq> 0) xs) = num_sum ops xs) \<and>
     num_minus ops 0 0 = 0"

section \<open>Vocabulary for the update frame\<close>

text \<open>
  What \<open>updateTransaction\<close> leaves alone in a document, and what it sets from the body:
  a supplied field takes the supplied value (after the \<open>trim\<close> setter), a field that is
  not supplied keeps its value.
\<close>

definition kept_by_update :: "transaction \<Rightarrow> transaction \<Rightarrow> bool" where
  "kept_by_update t t' \<longleftrightarrow>
     t_id t' = t_id t \<and> userId t' = userId t \<and> attachments t' = attachments t \<and>
     createdAt t' = createdAt t"

definition set_by_update :: "tx_body \<Rightarrow> transaction \<Rightarrow> transaction \<Rightarrow> bool" where
  "set_by_update b t t' \<longleftrightarrow>
     ttype t' = (case b_type b of None \<Rightarrow> ttype t | Some v \<Rightarrow> v) \<and>
     amount t' = (case b_amount b of None \<Rightarrow> amount t | Some v \<Rightarrow> v) \<and>
     category t' = (case b_category b of None \<Rightarrow> category t | Some v \<Rightarrow> trim v) \<and>
     description t' = (case b_description b of None \<Rightarrow> description t | Some v \<Rightarrow> Some (trim v)) \<and>
     tags t' = (case b_tags b of None \<Rightarrow> tags t | Some v \<Rightarrow> map trim v) \<and>
     isRecurring t' = (case b_isRecurring b of None \<Rightarrow> isRecurring t | Some v \<Rightarrow> v) \<and>
     recurringInterval t' =
       (case b_recurringInterval b of None \<Rightarrow> recurringInterval t | Some v \<Rightarrow> v) \<and>
     date t' = (case b_date b of None \<Rightarrow> date t | Some v \<Rightarrow> v)"

section \<open>Vocabulary for the auth properties\<close>

text \<open>
  A presented token has the type claim \<open>'refresh'\<close> when it is a JWT whose payload has
  it. The message of the response that does not tell whether the email is known.
\<close>

definition has_refresh_type :: "token \<Rightarrow> bool" where
  "has_refresh_type tok =
     (case tok of Malformed _ \<Rightarrow> False | Signed payload k \<Rightarrow> p_type payload = Some ''refresh'')"

definition uniform_message :: string where
  "uniform_message =
     ''If an account with that email exists, a password reset link has been sent''"

section \<open>Example data\<close>

text \<open>
  A calendar, two users and a way to write a transaction down, for the concrete
  instances below. The calendar counts days of 86400000 ms from the epoch.
\<close>

definition example_calendar :: calendar where
  "example_calendar =
     \<lparr> setHours0 = (\<lambda>d. d - d mod 86400000),
       setDate = (\<lambda>d n. d), setMonth = (\<lambda>d m n. d),
       getDate = (\<lambda>d. 1), getDay = (\<lambda>d. 0),
       yearBefore = (\<lambda>d. d - 31536000000),
       utcYear = (\<lambda>d. 1970 + d div 31536000000),
       utcMonth = (\<lambda>d. 1) \<rparr>"

text \<open>Arithmetic without rounding, which is that of doubles where no rounding occurs.\<close>

definition exact_numbers :: number_ops where
  "exact_numbers =
     \<lparr> num_sum = sum_list, num_avg = (\<lambda>xs. sum_list xs / of_nat (length xs)),
       num_minus = (\<lambda>a b. a - b) \<rparr>"

definition alice :: oid where
  "alice = ''aaaaaaaaaaaaaaaaaaaaaaaa''"

definition bob :: oid where
  "bob = ''bbbbbbbbbbbbbbbbbbbbbbbb''"

definition example_txn :: "oid \<Rightarrow> oid \<Rightarrow> string \<Rightarrow> rat \<Rightarrow> instant \<Rightarrow> transaction" where
  "example_txn i u ty a d =
     \<lparr> t_id = i, userId = u, ttype = ty, amount = a, category = ''Food'',
       description = None, date = d, tags = [], isRecurring = False,
       recurringInterval = ''monthly'', attachments = [], createdAt = d, updatedAt = d \<rparr>"

text \<open>
  Libraries for the listing: a pattern matches the strings equal to it, nothing parses,
  and documents are ordered by date. A query with two documents to the page, and a
  store of three documents of the first user and one of the second.
\<close>

definition example_env :: query_env where
  "example_env =
     \<lparr> regex_i = (\<lambda>p. Some (\<lambda>s. p = s)), parseFloat = (\<lambda>s. None), parseDate = (\<lambda>s. None),
       field_le = (\<lambda>f a b. date a \<le> date b) \<rparr>"

definition example_query :: list_query where
  "example_query =
     \<lparr> q_page = None, q_limit = Some 2, q_type = None, q_category = None, q_startDate = None,
       q_endDate = None, q_minAmount = None, q_maxAmount = None, q_search = None,
       q_sortBy = None, q_sortOrder = None \<rparr>"

definition example_store :: store where
  "example_store =
     [example_txn ''000000000000000000000001'' alice ''income'' 5 1000,
      example_txn ''000000000000000000000002'' bob ''expense'' 7 2000,
      example_txn ''000000000000000000000003'' alice ''expense'' 3 3000,
      example_txn ''000000000000000000000004'' alice ''income'' 4 2000]"

text \<open>A request body that supplies nothing.\<close>

definition empty_body :: tx_body where
  "empty_body =
     \<lparr> b_type = None, b_amount = None, b_category = None, b_description = None, b_tags = None,
       b_isRecurring = None, b_recurringInterval = None, b_date = None \<rparr>"

text \<open>
  An environment, two active users and a stand-in for the hash function that keeps
  its argument visible.
\<close>

definition example_auth_env :: auth_env where
  "example_auth_env =
     \<lparr> JWT_SECRET = Some ''secret'', JWT_REFRESH_SECRET = None, JWT_EXPIRES_IN = None,
       NODE_ENV = Some ''production'' \<rparr>"

definition example_user :: "oid \<Rightarrow> string \<Rightarrow> user" where
  "example_user i e =
     \<lparr> u_id = i, u_name = ''User'', u_email = e, u_password = ''$2a$12$hash'', u_isActive = True,
       u_lastLogin = None, passwordResetToken = None, passwordResetExpires = None,
       u_updatedAt = 0 \<rparr>"

definition example_users :: "user list" where
  "example_users = [example_user alice ''alice@example.com'', example_user bob ''bob@example.com'']"

definition example_hash :: "string \<Rightarrow> string" where
  "example_hash s = ''sha256:'' @ s"

text \<open>
  A body that passes every validator, a server context, an access token of the first
  user, and a bulk deletion request naming a document of each user.
\<close>

definition example_body :: tx_body where
  "example_body =
     \<lparr> b_type = Some ''expense'', b_amount = Some (85 / 2), b_category = Some ''Food & Dining'',
       b_description = None, b_tags = None, b_isRecurring = None, b_recurringInterval = None,
       b_date = Some 1705276800000 \<rparr>"

definition example_ctx :: server_ctx where
  "example_ctx =
     \<lparr> c_auth = example_auth_env, c_numbers = exact_numbers, c_query = example_env,
       c_calendar = example_calendar, c_now = 5000,
       c_new_id = ''000000000000000000000005'' \<rparr>"

definition example_access_token :: token where
  "example_access_token =
     Signed \<lparr> p_id = alice, p_type = None, p_iat = 0, p_exp = 86400000 \<rparr> ''secret''"

definition bulk_request :: api_request where
  "bulk_request =
     \<lparr> rq_method = DELETE, rq_path = [''bulk''], rq_authorization = Some example_access_token,
       rq_query = example_query, rq_period = None, rq_body = empty_body,
       rq_transactionIds =
         IdArray [''000000000000000000000001'', ''000000000000000000000002''] \<rparr>"

text \<open>
  A client with a stored session, its request, and servers for it. The example server
  refreshes any token, accepts the new access token and answers 401 to any other; its
  responses have a body stream or not, as the parameter says. The looping server
  refreshes any token and answers 401 to every other request.
\<close>

definition refresh_url :: string where
  "refresh_url = API_BASE_URL @ ''/auth/refresh-token''"

definition refreshed_response :: fetch_response where
  "refreshed_response =
     \<lparr> rs_url = refresh_url, rs_status = 200,
       rs_json = Some \<lparr> j_error = None, j_message = None, j_token = Some ''new'',
                        j_refreshToken = Some ''r2'' \<rparr>,
       rs_has_body = True \<rparr>"

definition plain_response :: "string \<Rightarrow> nat \<Rightarrow> string \<Rightarrow> bool \<Rightarrow> fetch_response" where
  "plain_response u code msg stream =
     \<lparr> rs_url = u, rs_status = code,
       rs_json = Some \<lparr> j_error = None, j_message = Some msg, j_token = None,
                        j_refreshToken = None \<rparr>,
       rs_has_body = stream \<rparr>"

definition example_server :: "bool \<Rightarrow> server" where
  "example_server stream history rq =
     (if fq_url rq = refresh_url then Some refreshed_response
      else if fq_authorization rq = Some ''new'' then
        Some (plain_response (fq_url rq) 201 ''Transaction created successfully'' stream)
      else Some (plain_response (fq_url rq) 401 ''Token is not valid'' stream))"

definition looping_server :: server where
  "looping_server history rq =
     (if fq_url rq = refresh_url then Some (refreshed_response \<lparr> rs_has_body := False \<rparr>)
      else Some (plain_response (fq_url rq) 401 ''Token is not valid'' False))"

definition example_client :: client_state where
  "example_client =
     \<lparr> ls_token = Some ''old'', ls_refreshToken = Some ''r1'', ls_user = Some ''alice'',
       location_href = None, sent = [] \<rparr>"

definition original_request :: fetch_request where
  "original_request =
     \<lparr> fq_url = API_BASE_URL @ ''/transactions'', fq_method = Some ''POST'',
       fq_authorization = Some ''old'', fq_body = Some (Text ''B'') \<rparr>"

definition refresh_request :: "string \<Rightarrow> fetch_request" where
  "refresh_request r =
     \<lparr> fq_url = refresh_url, fq_method = Some ''POST'', fq_authorization = None,
       fq_body = Some (JsonRefreshToken r) \<rparr>"

section \<open>Properties of the statistics\<close>

lemma nonzero_cond_amount:
  "filter (\<lambda>x. x \<noteq> 0) (map (cond_amount ty) ts) =
   filter (\<lambda>x. x \<noteq> 0) (map amount (filter (\<lambda>t. ttype t = ty) ts))"
  by (induction ts) (simp_all add: cond_amount_def)

lemma sum_cond_amount:
  assumes "zero_neutral ops"
  shows "num_sum ops (map (cond_amount ty) ts) =
         num_sum ops (map amount (filter (\<lambda>t. ttype t = ty) ts))"
proof -
  from assms have skip: "num_sum ops (filter (\<lambda>x. x \<noteq> 0) xs) = num_sum ops xs" for xs
    by (simp add: zero_neutral_def)
  have "num_sum ops (map (cond_amount ty) ts) =
        num_sum ops (filter (\<lambda>x. x \<noteq> 0) (map (cond_amount ty) ts))"
    by (simp only: skip)
  also have "\<dots> =
        num_sum ops (filter (\<lambda>x. x \<noteq> 0) (map amount (filter (\<lambda>t. ttype t = ty) ts)))"
    by (simp only: nonzero_cond_amount)
  also have "\<dots> = num_sum ops (map amount (filter (\<lambda>t. ttype t = ty) ts))"
    by (simp only: skip)
  finally show ?thesis .
qed

lemma stats_match_store:
  "stats_match uid start db =
   filter (\<lambda>t. userId t = uid \<and> (case start of None \<Rightarrow> True | Some s \<Rightarrow> s \<le> date t)) db"
  by (simp add: stats_match_def date_matches_def)

lemma stats_of_response:
  "r_stats (getTransactionStats ops cal now startOfPeriod clockThree db uid period_param) =
     (case group_all ops (stats_match uid (dateFilter cal now startOfPeriod period_param) db) of
        [] \<Rightarrow> zero_stats
      | stat # _ \<Rightarrow>
          \<lparr> totalIncome = g_totalIncome stat, totalExpenses = g_totalExpenses stat,
            totalTransactions = g_totalTransactions stat,
            avgTransactionAmount = g_avgTransactionAmount stat,
            minAmount = g_minAmount stat, maxAmount = g_maxAmount stat,
            netAmount = num_minus ops (g_totalIncome stat) (g_totalExpenses stat) \<rparr>)"
  by (simp add: getTransactionStats_def Let_def split: list.split)

lemma response_of_empty_match:
  "stats_match uid (dateFilter cal now startOfPeriod period_param) db = [] \<Longrightarrow>
   getTransactionStats ops cal now startOfPeriod clockThree db uid period_param =
     \<lparr> r_stats = zero_stats, r_categoryStats = [], r_monthlyStats = [] \<rparr>"
  by (simp add: getTransactionStats_def Let_def group_all_def)

lemma dateFilter_unrecognised:
  assumes "p \<notin> {''today'', ''week'', ''month'', ''year'', ''all''}"
  shows "dateFilter cal now startOfPeriod (Some p) = Some startOfPeriod"
  using assms by (simp add: dateFilter_def period_start_def)

lemma exact_numbers_neutral: "zero_neutral exact_numbers"
proof -
  have "sum_list (filter (\<lambda>x. x \<noteq> 0) xs) = sum_list xs" for xs :: "rat list"
    by (induction xs) simp_all
  then show ?thesis by (simp add: zero_neutral_def exact_numbers_def)
qed

text \<open>
  C1. Let \<open>mine\<close> be the documents of the store that belong to the user and lie in the
  window, which is the whole store without a start and the documents dated at or after
  the start otherwise. Whatever the user, the period and the clock, the statistics
  returned by \<open>getTransactionStats\<close> have \<open>netAmount = totalIncome - totalExpenses\<close>
  (the subtraction of JavaScript), where \<open>totalIncome\<close> (\<open>totalExpenses\<close>) is the store's
  sum of the amounts of the documents of type income (expense) in \<open>mine\<close>; and when
  \<open>mine\<close> is empty, the statistics are \<open>zero_stats\<close>, every field 0. The arithmetic is
  any that has the three properties of \<open>zero_neutral\<close>, as that of doubles has.
\<close>

theorem stats_net_amount:
  assumes "zero_neutral ops"
  shows
    "let start = dateFilter cal now startOfPeriod period_param;
         mine = filter (\<lambda>t. userId t = uid \<and>
                   (case start of None \<Rightarrow> True | Some s \<Rightarrow> s \<le> date t)) db;
         s = r_stats (getTransactionStats ops cal now startOfPeriod clockThree db uid period_param)
     in netAmount s = num_minus ops (totalIncome s) (totalExpenses s)
      \<and> totalIncome s = num_sum ops (map amount (filter (\<lambda>t. ttype t = ''income'') mine))
      \<and> totalExpenses s = num_sum ops (map amount (filter (\<lambda>t. ttype t = ''expense'') mine))
      \<and> (mine = [] \<longrightarrow> s = zero_stats)"
proof -
  define start where "start = dateFilter cal now startOfPeriod period_param"
  define mine where
    "mine = filter (\<lambda>t. userId t = uid \<and>
              (case start of None \<Rightarrow> True | Some s \<Rightarrow> s \<le> date t)) db"
  define s where
    "s = r_stats (getTransactionStats ops cal now startOfPeriod clockThree db uid period_param)"
  have matched: "stats_match uid (dateFilter cal now startOfPeriod period_param) db = mine"
    unfolding mine_def start_def by (rule stats_match_store)
  have s_eq: "s = (case group_all ops mine of [] \<Rightarrow> zero_stats
      | stat # _ \<Rightarrow>
          \<lparr> totalIncome = g_totalIncome stat, totalExpenses = g_totalExpenses stat,
            totalTransactions = g_totalTransactions stat,
            avgTransactionAmount = g_avgTransactionAmount stat,
            minAmount = g_minAmount stat, maxAmount = g_maxAmount stat,
            netAmount = num_minus ops (g_totalIncome stat) (g_totalExpenses stat) \<rparr>)"
    unfolding s_def matched [symmetric] by (rule stats_of_response)
  from assms have zero: "num_sum ops [] = 0" "num_minus ops 0 0 = 0"
    by (simp_all add: zero_neutral_def)
  have net: "netAmount s = num_minus ops (totalIncome s) (totalExpenses s)"
    by (cases mine) (simp_all add: s_eq group_all_def zero_stats_def zero)
  have empty: "mine = [] \<longrightarrow> s = zero_stats"
    by (simp add: s_eq group_all_def)
  have inc: "totalIncome s = num_sum ops (map (cond_amount ''income'') mine)"
    by (cases mine) (simp_all add: s_eq group_all_def zero_stats_def zero)
  have exp: "totalExpenses s = num_sum ops (map (cond_amount ''expense'') mine)"
    by (cases mine) (simp_all add: s_eq group_all_def zero_stats_def zero)
  show ?thesis
    unfolding Let_def start_def [symmetric] mine_def [symmetric] s_def [symmetric]
    using net empty inc exp by (simp only: sum_cond_amount [OF assms] simp_thms)
qed

theorem stats_net_amount_witness:
  "zero_neutral exact_numbers
   \<and> r_stats (getTransactionStats exact_numbers example_calendar 1000 1000 1000
        [example_txn ''cccccccccccccccccccccccc'' bob ''income'' 5 2000] alice (Some ''today'')) =
      zero_stats
   \<and> totalIncome (r_stats (getTransactionStats exact_numbers example_calendar 1000 1000 1000
        example_store alice None)) = 9
   \<and> totalExpenses (r_stats (getTransactionStats exact_numbers example_calendar 1000 1000 1000
        example_store alice None)) = 3
   \<and> netAmount (r_stats (getTransactionStats exact_numbers example_calendar 1000 1000 1000
        example_store alice None)) = 6"
proof -
  have none: "filter (\<lambda>t. userId t = alice \<and>
        (case dateFilter example_calendar 1000 1000 (Some ''today'') of
           None \<Rightarrow> True | Some s \<Rightarrow> s \<le> date t))
      [example_txn ''cccccccccccccccccccccccc'' bob ''income'' 5 2000] = []"
    by (simp add: example_txn_def alice_def bob_def)
  from stats_net_amount [OF exact_numbers_neutral, where uid = alice and cal = example_calendar
      and now = 1000 and startOfPeriod = 1000 and clockThree = 1000
      and period_param = "Some ''today''"
      and db = "[example_txn ''cccccccccccccccccccccccc'' bob ''income'' 5 2000]"] none
  have a: "r_stats (getTransactionStats exact_numbers example_calendar 1000 1000 1000
        [example_txn ''cccccccccccccccccccccccc'' bob ''income'' 5 2000] alice (Some ''today'')) =
      zero_stats"
    by (simp add: Let_def)
  have all: "dateFilter example_calendar 1000 1000 None = None"
    by (simp add: dateFilter_def)
  have si: "num_sum exact_numbers (map amount (filter (\<lambda>t. ttype t = ''income'')
        (filter (\<lambda>t. userId t = alice \<and> True) example_store))) = 9"
    by (simp add: exact_numbers_def example_store_def example_txn_def alice_def bob_def)
  have se: "num_sum exact_numbers (map amount (filter (\<lambda>t. ttype t = ''expense'')
        (filter (\<lambda>t. userId t = alice \<and> True) example_store))) = 3"
    by (simp add: exact_numbers_def example_store_def example_txn_def alice_def bob_def)
  note b = stats_net_amount [OF exact_numbers_neutral, where uid = alice
      and cal = example_calendar and now = 1000 and startOfPeriod = 1000 and clockThree = 1000
      and period_param = None and db = example_store, unfolded Let_def all option.case]
  from b have "totalIncome (r_stats (getTransactionStats exact_numbers example_calendar
        1000 1000 1000 example_store alice None)) =
      num_sum exact_numbers (map amount (filter (\<lambda>t. ttype t = ''income'')
        (filter (\<lambda>t. userId t = alice \<and> True) example_store)))"
    by (rule conjunct1 [OF conjunct2])
  then have inc: "totalIncome (r_stats (getTransactionStats exact_numbers example_calendar
        1000 1000 1000 example_store alice None)) = 9"
    by (simp only: si)
  from b have "totalExpenses (r_stats (getTransactionStats exact_numbers example_calendar
        1000 1000 1000 example_store alice None)) =
      num_sum exact_numbers (map amount (filter (\<lambda>t. ttype t = ''expense'')
        (filter (\<lambda>t. userId t = alice \<and> True) example_store)))"
    by (rule conjunct1 [OF conjunct2 [OF conjunct2]])
  then have exp: "totalExpenses (r_stats (getTransactionStats exact_numbers example_calendar
        1000 1000 1000 example_store alice None)) = 3"
    by (simp only: se)
  from b have "netAmount (r_stats (getTransactionStats exact_numbers example_calendar
        1000 1000 1000 example_store alice None)) =
      num_minus exact_numbers
        (totalIncome (r_stats (getTransactionStats exact_numbers example_calendar
           1000 1000 1000 example_store alice None)))
        (totalExpenses (r_stats (getTransactionStats exact_numbers example_calendar
           1000 1000 1000 example_store alice None)))"
    by (rule conjunct1)
  then have net: "netAmount (r_stats (getTransactionStats exact_numbers example_calendar
        1000 1000 1000 example_store alice None)) = 6"
    by (simp only: inc exp) (simp add: exact_numbers_def)
  from exact_numbers_neutral a inc exp net show ?thesis by blast
qed

text \<open>
  C10, as amended. A period that is none of today, week, month, year, all is not
  refused and is not read as all: the window starts at the handler's clock reading
  \<open>startOfPeriod\<close>, and holds the user's documents dated at or after it. So the
  response is the zeroed one for a user whose documents are all dated strictly before
  that reading.
\<close>

theorem stats_unrecognised_period:
  assumes "p \<notin> {''today'', ''week'', ''month'', ''year'', ''all''}"
  shows "dateFilter cal now startOfPeriod (Some p) = Some startOfPeriod
    \<and> stats_match uid (dateFilter cal now startOfPeriod (Some p)) db =
        filter (\<lambda>t. userId t = uid \<and> startOfPeriod \<le> date t) db
    \<and> ((\<forall>t \<in> set db. userId t = uid \<longrightarrow> date t < startOfPeriod) \<longrightarrow>
         getTransactionStats ops cal now startOfPeriod clockThree db uid (Some p) =
           \<lparr> r_stats = zero_stats, r_categoryStats = [], r_monthlyStats = [] \<rparr>)"
proof -
  have df: "dateFilter cal now startOfPeriod (Some p) = Some startOfPeriod"
    using assms by (rule dateFilter_unrecognised)
  have m: "stats_match uid (dateFilter cal now startOfPeriod (Some p)) db =
        filter (\<lambda>t. userId t = uid \<and> startOfPeriod \<le> date t) db"
    by (simp add: df stats_match_def date_matches_def)
  have z: "getTransactionStats ops cal now startOfPeriod clockThree db uid (Some p) =
           \<lparr> r_stats = zero_stats, r_categoryStats = [], r_monthlyStats = [] \<rparr>"
    if "\<forall>t \<in> set db. userId t = uid \<longrightarrow> date t < startOfPeriod"
  proof (rule response_of_empty_match)
    have "filter (\<lambda>t. userId t = uid \<and> startOfPeriod \<le> date t) db = []"
      using that by (auto simp: filter_empty_conv)
    then show "stats_match uid (dateFilter cal now startOfPeriod (Some p)) db = []"
      by (simp add: m)
  qed
  from df m z show ?thesis by blast
qed

theorem stats_unrecognised_period_witness:
  "dateFilter example_calendar 1000 1000 (Some ''quarter'') = Some 1000
   \<and> getTransactionStats exact_numbers example_calendar 1000 1000 1000
        [example_txn ''cccccccccccccccccccccccc'' alice ''income'' 5 999] alice
        (Some ''quarter'') =
      \<lparr> r_stats = zero_stats, r_categoryStats = [], r_monthlyStats = [] \<rparr>"
  using stats_unrecognised_period [where p = "''quarter''" and cal = example_calendar
      and now = 1000 and startOfPeriod = 1000 and uid = alice and ops = exact_numbers
      and db = "[example_txn ''cccccccccccccccccccccccc'' alice ''income'' 5 999]"
      and clockThree = 1000]
  by (simp add: example_txn_def)

text \<open>
  The claim as it stands, with "at or before" the request time, fails: a document of the
  user dated exactly at the clock reading is in the window (\<open>$gte\<close>). Whatever the
  arithmetic, the response counts one transaction.
\<close>

theorem stats_unrecognised_period_counterexample:
  "date (example_txn ''cccccccccccccccccccccccc'' alice ''income'' 5 1000) \<le> 1000
   \<and> userId (example_txn ''cccccccccccccccccccccccc'' alice ''income'' 5 1000) = alice
   \<and> r_stats (getTransactionStats exact_numbers example_calendar 1000 1000 1000
        [example_txn ''cccccccccccccccccccccccc'' alice ''income'' 5 1000] alice
        (Some ''quarter'')) =
      \<lparr> totalIncome = 5, totalExpenses = 0, totalTransactions = 1, avgTransactionAmount = 5,
        minAmount = 5, maxAmount = 5, netAmount = 5 \<rparr>
   \<and> (\<forall>ops. totalTransactions (r_stats (getTransactionStats ops example_calendar 1000 1000 1000
        [example_txn ''cccccccccccccccccccccccc'' alice ''income'' 5 1000] alice
        (Some ''quarter''))) = 1)
   \<and> (\<forall>ops. r_stats (getTransactionStats ops example_calendar 1000 1000 1000
        [example_txn ''cccccccccccccccccccccccc'' alice ''income'' 5 1000] alice
        (Some ''quarter'')) \<noteq> zero_stats)"
proof -
  have count: "totalTransactions (r_stats (getTransactionStats ops example_calendar 1000 1000
        1000 [example_txn ''cccccccccccccccccccccccc'' alice ''income'' 5 1000] alice
        (Some ''quarter''))) = 1" for ops
    by (simp add: stats_of_response dateFilter_def period_start_def stats_match_def
        date_matches_def group_all_def example_txn_def)
  have differs: "r_stats (getTransactionStats ops example_calendar 1000 1000
        1000 [example_txn ''cccccccccccccccccccccccc'' alice ''income'' 5 1000] alice
        (Some ''quarter'')) \<noteq> zero_stats" for ops
    using count [of ops] by (auto simp: zero_stats_def)
  have exact: "r_stats (getTransactionStats exact_numbers example_calendar 1000 1000 1000
        [example_txn ''cccccccccccccccccccccccc'' alice ''income'' 5 1000] alice
        (Some ''quarter'')) =
      \<lparr> totalIncome = 5, totalExpenses = 0, totalTransactions = 1, avgTransactionAmount = 5,
        minAmount = 5, maxAmount = 5, netAmount = 5 \<rparr>"
    by (simp add: stats_of_response dateFilter_def period_start_def stats_match_def
        date_matches_def group_all_def cond_amount_def example_txn_def exact_numbers_def)
  from count differs exact show ?thesis
    by (simp add: example_txn_def)
qed

section \<open>Properties of the listing\<close>

lemma mset_insort_by: "mset (insort_by le x xs) = add_mset x (mset xs)"
  by (induction xs) simp_all

lemma mset_sort_by: "mset (sort_by le xs) = mset xs"
  by (induction xs) (simp_all add: sort_by_def mset_insort_by)

lemma length_sort_by: "length (sort_by le xs) = length xs"
  using mset_sort_by [of le xs] by (metis size_mset)

lemma conds_page:
  "type_cond (q\<lparr>q_page := x\<rparr>) = type_cond q"
  "category_cond env (q\<lparr>q_page := x\<rparr>) = category_cond env q"
  "date_cond env (q\<lparr>q_page := x\<rparr>) = date_cond env q"
  "amount_cond env (q\<lparr>q_page := x\<rparr>) = amount_cond env q"
  "search_cond env (q\<lparr>q_page := x\<rparr>) = search_cond env q"
  by (simp_all add: type_cond_def category_cond_def date_cond_def amount_cond_def
      search_cond_def)

lemma build_filter_page: "build_filter env uid (q\<lparr>q_page := x\<rparr>) = build_filter env uid q"
  by (simp add: build_filter_def conds_page)

lemma sort_order_page: "sort_order env (q\<lparr>q_page := x\<rparr>) = sort_order env q"
  by (simp add: sort_order_def)

lemma concat_slices:
  "concat (map (\<lambda>i. take k (drop (i * k) xs)) [0..<m]) = take (m * k) xs"
proof (induction m)
  case 0
  show ?case by simp
next
  case (Suc m)
  have "take (m * k) xs @ take k (drop (m * k) xs) = take (m * k + k) xs"
    by (simp add: take_add)
  with Suc show ?case by (simp add: add.commute)
qed

lemma concat_pages:
  "concat (map (\<lambda>p. take k (drop ((p - 1) * k) xs)) [1..<Suc m]) = take (m * k) xs"
proof -
  have "map (\<lambda>p. take k (drop ((p - 1) * k) xs)) [1..<Suc m] =
        map (\<lambda>i. take k (drop (i * k) xs)) [0..<m]"
    by (induction m) simp_all
  then show ?thesis by (simp only: concat_slices)
qed

lemma ceil_div_pos:
  assumes "1 \<le> l"
  shows "ceil_div n l = Finite \<lceil>rat_of_nat n / rat_of_int l\<rceil>"
proof -
  have "\<lceil>rat_of_int (int n) / rat_of_int l\<rceil> = - (- int n div l)"
    by (rule ceiling_divide_eq_div)
  with assms show ?thesis by (simp add: ceil_div_def)
qed

lemma pages_cover:
  assumes "1 \<le> l"
  shows "n \<le> nat \<lceil>rat_of_nat n / rat_of_int l\<rceil> * nat l"
proof -
  have lpos: "0 < rat_of_int l" using assms by simp
  have "rat_of_nat n / rat_of_int l \<le> rat_of_int \<lceil>rat_of_nat n / rat_of_int l\<rceil>"
    by (rule le_of_int_ceiling)
  then have "rat_of_nat n \<le> rat_of_int \<lceil>rat_of_nat n / rat_of_int l\<rceil> * rat_of_int l"
    by (simp only: pos_divide_le_eq [OF lpos])
  then have "rat_of_int (int n) \<le> rat_of_int (\<lceil>rat_of_nat n / rat_of_int l\<rceil> * l)"
    by simp
  then have "int n \<le> \<lceil>rat_of_nat n / rat_of_int l\<rceil> * l"
    by (simp only: of_int_le_iff)
  moreover have "0 \<le> \<lceil>rat_of_nat n / rat_of_int l\<rceil>"
  proof -
    have "0 \<le> rat_of_nat n / rat_of_int l"
      using lpos by simp
    then have "- 1 < rat_of_nat n / rat_of_int l"
      by linarith
    then show ?thesis by (simp only: zero_le_ceiling)
  qed
  ultimately show ?thesis
    using assms by (metis nat_int nat_mono nat_mult_distrib)
qed

lemma page_response:
  assumes f: "build_filter env uid q = Some matches"
    and l: "l = (case q_limit q of None \<Rightarrow> 10 | Some v \<Rightarrow> v)" "1 \<le> l"
    and p: "1 \<le> p"
  shows "getTransactions env db uid (q\<lparr>q_page := Some p\<rparr>) =
     Inr \<lparr> transactions =
             take (nat l) (drop (nat ((p - 1) * l)) (sort_by (sort_order env q) (filter matches db))),
           pagination =
             \<lparr> currentPage = p,
               totalPages = Finite \<lceil>rat_of_nat (length (filter matches db)) / rat_of_int l\<rceil>,
               totalItems = length (filter matches db), itemsPerPage = l,
               hasNextPage = (p < \<lceil>rat_of_nat (length (filter matches db)) / rat_of_int l\<rceil>),
               hasPrevPage = (1 < p) \<rparr> \<rparr>"
proof -
  have skip: "\<not> (p - 1) * l < 0"
    using l(2) p by (simp add: mult_less_0_iff)
  have lim: "apply_limit l xs = take (nat l) xs" for xs :: "transaction list"
    using l(2) by (simp add: apply_limit_def)
  have lq: "(case q_limit q of None \<Rightarrow> 10 | Some v \<Rightarrow> v) = l"
    using l(1) by simp
  show ?thesis
    using skip
    by (simp add: getTransactions_def Let_def build_filter_page sort_order_page f lq lim
        ceil_div_pos [OF l(2)] js_less_def)
qed


text \<open>
  C2. When the filter is well formed and the limit is at least 1, every page \<open>p \<ge> 1\<close>
  is answered with the slice of the sorted filtered list that skips \<open>(p - 1) * limit\<close>
  documents and takes at most \<open>limit\<close>, with the total count and
  \<open>totalPages = ceil(total / limit)\<close>; the pages 1 to \<open>totalPages\<close>, one after the other,
  are the sorted filtered list, which has every document of the filtered list exactly
  once.
\<close>

theorem pagination_partition:
  assumes f: "build_filter env uid q = Some matches"
    and l: "l = (case q_limit q of None \<Rightarrow> 10 | Some v \<Rightarrow> v)" "1 \<le> l"
  shows "let F = filter matches db;
             S = sort_by (sort_order env q) F;
             n = \<lceil>rat_of_nat (length F) / rat_of_int l\<rceil>
         in (\<forall>p\<ge>1. getTransactions env db uid (q\<lparr>q_page := Some p\<rparr>) =
               Inr \<lparr> transactions = take (nat l) (drop (nat ((p - 1) * l)) S),
                     pagination =
                       \<lparr> currentPage = p, totalPages = Finite n, totalItems = length F,
                         itemsPerPage = l, hasNextPage = (p < n), hasPrevPage = (1 < p) \<rparr> \<rparr>)
          \<and> concat (map (\<lambda>p. page_items env db uid q (int p)) [1..<Suc (nat n)]) = S
          \<and> mset S = mset F"
proof -
  define F where "F = filter matches db"
  define S where "S = sort_by (sort_order env q) F"
  define n where "n = \<lceil>rat_of_nat (length F) / rat_of_int l\<rceil>"
  have page: "getTransactions env db uid (q\<lparr>q_page := Some p\<rparr>) =
               Inr \<lparr> transactions = take (nat l) (drop (nat ((p - 1) * l)) S),
                     pagination =
                       \<lparr> currentPage = p, totalPages = Finite n, totalItems = length F,
                         itemsPerPage = l, hasNextPage = (p < n), hasPrevPage = (1 < p) \<rparr> \<rparr>"
    if "1 \<le> p" for p
    unfolding S_def F_def n_def using f l that by (rule page_response)
  have items: "page_items env db uid q (int i) = take (nat l) (drop ((i - 1) * nat l) S)"
    if "1 \<le> i" for i :: nat
  proof -
    have "1 \<le> int i" using that by simp
    then have "page_items env db uid q (int i) = take (nat l) (drop (nat ((int i - 1) * l)) S)"
      by (simp add: page_items_def page)
    moreover have "nat ((int i - 1) * l) = (i - 1) * nat l"
      using that l(2) by (simp add: nat_mult_distrib)
    ultimately show ?thesis by simp
  qed
  have "map (\<lambda>p. page_items env db uid q (int p)) [1..<Suc (nat n)] =
        map (\<lambda>p. take (nat l) (drop ((p - 1) * nat l) S)) [1..<Suc (nat n)]"
  proof (rule map_cong)
    fix x assume "x \<in> set [1..<Suc (nat n)]"
    then have "1 \<le> x" by auto
    then show "page_items env db uid q (int x) = take (nat l) (drop ((x - 1) * nat l) S)"
      by (rule items)
  qed simp
  then have "concat (map (\<lambda>p. page_items env db uid q (int p)) [1..<Suc (nat n)]) =
        take (nat n * nat l) S"
    by (simp only: concat_pages)
  moreover have "length S \<le> nat n * nat l"
    unfolding S_def n_def length_sort_by using l(2) by (rule pages_cover)
  ultimately have cover: "concat (map (\<lambda>p. page_items env db uid q (int p)) [1..<Suc (nat n)]) = S"
    by simp
  have perm: "mset S = mset F"
    unfolding S_def by (rule mset_sort_by)
  from page cover perm show ?thesis
    unfolding Let_def F_def [symmetric] S_def [symmetric] n_def [symmetric] by blast
qed

lemma example_filter:
  "build_filter example_env alice example_query =
     Some (\<lambda>t. userId t = alice \<and> True \<and> True \<and> True \<and> True \<and> True)"
  by (simp add: build_filter_def type_cond_def category_cond_def date_cond_def amount_cond_def
      search_cond_def truthy_def example_query_def)


theorem pagination_partition_witness:
  "page_items example_env example_store alice example_query 1 =
     [example_txn ''000000000000000000000003'' alice ''expense'' 3 3000,
      example_txn ''000000000000000000000004'' alice ''income'' 4 2000]
   \<and> page_items example_env example_store alice example_query 2 =
     [example_txn ''000000000000000000000001'' alice ''income'' 5 1000]
   \<and> mset (page_items example_env example_store alice example_query 1 @
            page_items example_env example_store alice example_query 2) =
      mset (filter (\<lambda>t. userId t = alice) example_store)"
proof -
  have l: "(2::int) = (case q_limit example_query of None \<Rightarrow> 10 | Some v \<Rightarrow> v)"
    by (simp add: example_query_def)
  have F: "filter (\<lambda>t. userId t = alice) example_store =
     [example_txn ''000000000000000000000001'' alice ''income'' 5 1000,
      example_txn ''000000000000000000000003'' alice ''expense'' 3 3000,
      example_txn ''000000000000000000000004'' alice ''income'' 4 2000]"
    by (simp add: example_store_def example_txn_def alice_def bob_def)
  have so: "sort_order example_env example_query = (\<lambda>a b. date b \<le> date a)"
    by (simp add: sort_order_def example_env_def example_query_def)
  have S: "sort_by (\<lambda>a b. date b \<le> date a)
      [example_txn ''000000000000000000000001'' alice ''income'' 5 1000,
      example_txn ''000000000000000000000003'' alice ''expense'' 3 3000,
      example_txn ''000000000000000000000004'' alice ''income'' 4 2000] =
     [example_txn ''000000000000000000000003'' alice ''expense'' 3 3000,
      example_txn ''000000000000000000000004'' alice ''income'' 4 2000,
      example_txn ''000000000000000000000001'' alice ''income'' 5 1000]"
    by (simp add: sort_by_def example_txn_def)
  from pagination_partition [OF example_filter l, of example_store]
  have pages: "\<forall>p\<ge>1. page_items example_env example_store alice example_query p =
     take 2 (drop (nat ((p - 1) * 2))
       [example_txn ''000000000000000000000003'' alice ''expense'' 3 3000,
        example_txn ''000000000000000000000004'' alice ''income'' 4 2000,
        example_txn ''000000000000000000000001'' alice ''income'' 5 1000])"
    by (simp add: Let_def F so S page_items_def)
  have p1: "page_items example_env example_store alice example_query 1 =
     [example_txn ''000000000000000000000003'' alice ''expense'' 3 3000,
      example_txn ''000000000000000000000004'' alice ''income'' 4 2000]"
    using pages by simp
  have p2: "page_items example_env example_store alice example_query 2 =
     [example_txn ''000000000000000000000001'' alice ''income'' 5 1000]"
    using pages by simp
  show ?thesis
    by (simp add: p1 p2 F)
qed

section \<open>Ownership\<close>

lemma find_SomeD: "find P xs = Some x \<Longrightarrow> P x \<and> x \<in> set xs"
  by (induction xs) (auto split: if_splits)

lemma filter_update_first:
  assumes "\<And>x. P x \<Longrightarrow> \<not> Q x \<and> \<not> Q (f x)"
  shows "filter Q (update_first P f xs) = filter Q xs"
  using assms by (induction xs) auto

lemma filter_remove_first:
  assumes "\<And>x. P x \<Longrightarrow> \<not> Q x"
  shows "filter Q (remove_first P xs) = filter Q xs"
  using assms by (induction xs) auto

lemma filter_filter_not:
  assumes "\<And>x. P x \<Longrightarrow> \<not> Q x"
  shows "filter Q (filter (\<lambda>x. \<not> P x) xs) = filter Q xs"
  using assms by (induction xs) auto

lemma userId_apply_update: "userId (apply_update now b t) = userId t"
  by (simp add: apply_update_def)

lemma filter_owner_drop_other:
  assumes "A \<noteq> B"
  shows "filter (\<lambda>t. userId t = A \<and> P t) (filter (\<lambda>x. userId x \<noteq> B) db) =
         filter (\<lambda>t. userId t = A \<and> P t) db"
  using assms by (induction db) auto

lemma build_filter_owner:
  "build_filter env uid q = Some matches \<Longrightarrow> matches t \<Longrightarrow> userId t = uid"
  by (auto simp: build_filter_def split: option.splits)

lemma set_insort_by: "set (insort_by le x xs) = insert x (set xs)"
  by (induction xs) auto

lemma set_sort_by: "set (sort_by le xs) = set xs"
  by (induction xs) (simp_all add: sort_by_def set_insort_by)

lemma set_apply_limit: "set (apply_limit n xs) \<subseteq> set xs"
  by (auto simp: apply_limit_def dest: in_set_takeD)

lemma listed_subset:
  assumes "getTransactions env db uid q = Inr r" and "build_filter env uid q = Some matches"
  shows "set (transactions r) \<subseteq> set (filter matches db)"
proof -
  let ?l = "case q_limit q of None \<Rightarrow> 10 | Some l \<Rightarrow> l"
  let ?p = "case q_page q of None \<Rightarrow> 1 | Some p \<Rightarrow> p"
  have "transactions r =
      apply_limit ?l (drop (nat ((?p - 1) * ?l)) (sort_by (sort_order env q) (filter matches db)))"
    using assms by (simp add: getTransactions_def Let_def split: if_splits) auto
  moreover have "set (apply_limit ?l (drop (nat ((?p - 1) * ?l))
        (sort_by (sort_order env q) (filter matches db)))) \<subseteq>
      set (sort_by (sort_order env q) (filter matches db))"
    using set_apply_limit set_drop_subset by (rule subset_trans)
  ultimately show ?thesis by (simp only: set_sort_by)
qed

lemma listed_owned:
  assumes "getTransactions env db uid q = Inr r" and "x \<in> set (transactions r)"
  shows "userId x = uid \<and> x \<in> set db"
proof -
  from assms(1) obtain matches where f: "build_filter env uid q = Some matches"
    by (cases "build_filter env uid q") (simp_all add: getTransactions_def Let_def)
  from listed_subset [OF assms(1) f] assms(2) have "matches x" "x \<in> set db" by auto
  with f show ?thesis by (simp add: build_filter_owner)
qed

lemma stats_match_drop_other:
  assumes "A \<noteq> B"
  shows "stats_match A df (filter (\<lambda>x. userId x \<noteq> B) db) = stats_match A df db"
  unfolding stats_match_def using assms by (rule filter_owner_drop_other)

lemma monthly_drop_other:
  assumes "A \<noteq> B"
  shows "monthlyStats_of ops cal y A (filter (\<lambda>x. userId x \<noteq> B) db) =
         monthlyStats_of ops cal y A db"
  unfolding monthlyStats_of_def by (simp only: filter_owner_drop_other [OF assms])

lemma stats_drop_other:
  assumes "A \<noteq> B"
  shows "getTransactionStats ops cal now sop c3 (filter (\<lambda>x. userId x \<noteq> B) db) A p =
         getTransactionStats ops cal now sop c3 db A p"
  unfolding getTransactionStats_def
  by (simp only: stats_match_drop_other [OF assms] monthly_drop_other [OF assms])

lemma categories_drop_other:
  assumes "A \<noteq> B"
  shows "getTransactionCategories ops (filter (\<lambda>x. userId x \<noteq> B) db) A =
         getTransactionCategories ops db A"
proof -
  have "filter (\<lambda>t. userId t = A) (filter (\<lambda>x. userId x \<noteq> B) db) = filter (\<lambda>t. userId t = A) db"
    using assms by (induction db) auto
  then show ?thesis
    unfolding getTransactionCategories_def by (simp only:)
qed

lemma update_first_keeps_others:
  assumes "A \<noteq> B"
  shows "filter (\<lambda>x. userId x = B) (update_first (owned_with_id i A) (apply_update now b) db) =
         filter (\<lambda>x. userId x = B) db"
  by (rule filter_update_first) (use assms in \<open>simp add: owned_with_id_def userId_apply_update\<close>)

lemma update_keeps_others:
  assumes "A \<noteq> B"
  shows "filter (\<lambda>x. userId x = B) (snd (updateTransaction now db A id_param b)) =
         filter (\<lambda>x. userId x = B) db"
  by (simp add: updateTransaction_def update_first_keeps_others [OF assms] split: option.split)

lemma remove_first_keeps_others:
  assumes "A \<noteq> B"
  shows "filter (\<lambda>x. userId x = B) (remove_first (owned_with_id i A) db) =
         filter (\<lambda>x. userId x = B) db"
  by (rule filter_remove_first) (use assms in \<open>simp add: owned_with_id_def\<close>)

lemma delete_keeps_others:
  assumes "A \<noteq> B"
  shows "filter (\<lambda>x. userId x = B) (snd (deleteTransaction db A id_param)) =
         filter (\<lambda>x. userId x = B) db"
  by (simp add: deleteTransaction_def remove_first_keeps_others [OF assms] split: option.split)

lemma bulk_filter_keeps_others:
  assumes "A \<noteq> B"
  shows "filter (\<lambda>x. userId x = B) (filter (\<lambda>t. \<not> bulk_selected ids A t) db) =
         filter (\<lambda>x. userId x = B) db"
  by (rule filter_filter_not) (use assms in \<open>simp add: bulk_selected_def\<close>)

lemma bulk_keeps_others:
  assumes "A \<noteq> B"
  shows "filter (\<lambda>x. userId x = B) (snd (bulkDeleteTransactions db A ids)) =
         filter (\<lambda>x. userId x = B) db"
  by (simp add: bulkDeleteTransactions_def bulk_filter_keeps_others [OF assms]
      del: filter_filter split: option.split ids_field.split)

lemma getById_owned: "getTransactionById db uid id_param = Inr x \<Longrightarrow> userId x = uid"
  by (auto simp: getTransactionById_def owned_with_id_def split: option.splits dest: find_SomeD)

lemma update_returns_owned:
  "fst (updateTransaction now db uid id_param b) = Inr x \<Longrightarrow> userId x = uid"
  by (auto simp: updateTransaction_def owned_with_id_def userId_apply_update
      split: option.splits if_splits dest: find_SomeD)


text \<open>
  C3. Let \<open>A\<close> and \<open>B\<close> be distinct users and \<open>t\<close> a transaction of \<open>B\<close> in the
  store. Whatever \<open>A\<close> asks, and whatever id \<open>A\<close> supplies (the id of \<open>t\<close> included):
  a listing and a lookup do not return \<open>t\<close>; the statistics and the categories are
  those of the store without the documents of \<open>B\<close>; an update does not return \<open>t\<close>;
  and after an update, a deletion or a bulk deletion the documents of \<open>B\<close> are the
  same documents, in the same order.
\<close>

theorem ownership_isolation:
  assumes "A \<noteq> B" and "userId t = B" and "t \<in> set db"
  shows "(\<forall>r. getTransactions env db A q = Inr r \<longrightarrow> t \<notin> set (transactions r))
    \<and> (\<forall>x. getTransactionById db A id_param = Inr x \<longrightarrow> x \<noteq> t)
    \<and> getTransactionStats ops cal now sop c3 db A period =
        getTransactionStats ops cal now sop c3 (filter (\<lambda>x. userId x \<noteq> B) db) A period
    \<and> getTransactionCategories ops db A =
        getTransactionCategories ops (filter (\<lambda>x. userId x \<noteq> B) db) A
    \<and> (\<forall>x. fst (updateTransaction now db A id_param b) = Inr x \<longrightarrow> x \<noteq> t)
    \<and> filter (\<lambda>x. userId x = B) (snd (updateTransaction now db A id_param b)) =
        filter (\<lambda>x. userId x = B) db
    \<and> filter (\<lambda>x. userId x = B) (snd (deleteTransaction db A id_param)) =
        filter (\<lambda>x. userId x = B) db
    \<and> filter (\<lambda>x. userId x = B) (snd (bulkDeleteTransactions db A ids)) =
        filter (\<lambda>x. userId x = B) db"
proof -
  have list: "t \<notin> set (transactions r)" if "getTransactions env db A q = Inr r" for r
    using listed_owned [OF that, of t] assms(1,2) by auto
  have one: "x \<noteq> t" if "getTransactionById db A id_param = Inr x" for x
    using getById_owned [OF that] assms(1,2) by auto
  have upd: "x \<noteq> t" if "fst (updateTransaction now db A id_param b) = Inr x" for x
    using update_returns_owned [OF that] assms(1,2) by auto
  note stats = stats_drop_other [OF assms(1), of ops cal now sop c3 db period, symmetric]
  note cats = categories_drop_other [OF assms(1), of ops db, symmetric]
  note u = update_keeps_others [OF assms(1), of now db id_param b]
  note d = delete_keeps_others [OF assms(1), of db id_param]
  note k = bulk_keeps_others [OF assms(1), of db ids]
  from list one upd stats cats u d k show ?thesis by blast
qed

theorem ownership_isolation_witness:
  "alice \<noteq> bob
   \<and> example_txn ''000000000000000000000002'' bob ''expense'' 7 2000 \<in> set example_store
   \<and> (\<exists>r. getTransactions example_env example_store alice example_query = Inr r \<and>
          example_txn ''000000000000000000000002'' bob ''expense'' 7 2000 \<notin> set (transactions r))
   \<and> getTransactionById example_store alice ''000000000000000000000002'' =
       Inl \<lparr> status = 404, message = ''Transaction not found'' \<rparr>
   \<and> filter (\<lambda>x. userId x = bob)
       (snd (updateTransaction 5000 example_store alice ''000000000000000000000002''
              (empty_body\<lparr>b_amount := Some 1\<rparr>))) =
      [example_txn ''000000000000000000000002'' bob ''expense'' 7 2000]
   \<and> filter (\<lambda>x. userId x = bob)
       (snd (deleteTransaction example_store alice ''000000000000000000000002'')) =
      [example_txn ''000000000000000000000002'' bob ''expense'' 7 2000]
   \<and> filter (\<lambda>x. userId x = bob)
       (snd (bulkDeleteTransactions example_store alice
              (IdArray [''000000000000000000000001'', ''000000000000000000000002'']))) =
      [example_txn ''000000000000000000000002'' bob ''expense'' 7 2000]"
proof -
  have ne: "alice \<noteq> bob" by (simp add: alice_def bob_def)
  have own: "userId (example_txn ''000000000000000000000002'' bob ''expense'' 7 2000) = bob"
    by (simp add: example_txn_def)
  have mem: "example_txn ''000000000000000000000002'' bob ''expense'' 7 2000 \<in> set example_store"
    by (simp add: example_store_def)
  have bobs: "filter (\<lambda>x. userId x = bob) example_store =
      [example_txn ''000000000000000000000002'' bob ''expense'' 7 2000]"
    by (simp add: example_store_def example_txn_def alice_def bob_def)
  note iso = ownership_isolation [where id_param = "''000000000000000000000002''" and now = 5000
      and b = "empty_body\<lparr>b_amount := Some 1\<rparr>"
      and ids = "IdArray [''000000000000000000000001'', ''000000000000000000000002'']"
      and env = example_env and q = example_query,
      OF ne own mem]
  have qp: "q_page example_query = None" "q_limit example_query = Some 2"
    by (simp_all add: example_query_def)
  have "\<exists>r. getTransactions example_env example_store alice example_query = Inr r"
    by (simp add: getTransactions_def Let_def example_filter qp)
  then obtain r where r: "getTransactions example_env example_store alice example_query = Inr r"
    by blast
  with iso have listed:
    "\<exists>r. getTransactions example_env example_store alice example_query = Inr r \<and>
       example_txn ''000000000000000000000002'' bob ''expense'' 7 2000 \<notin> set (transactions r)"
    by blast
  have c: "castObjectId ''000000000000000000000002'' = Some ''000000000000000000000002''"
    by (simp add: castObjectId_def is_hex_def lower_hex_def hex_digits_def)
  have lookup: "getTransactionById example_store alice ''000000000000000000000002'' =
       Inl \<lparr> status = 404, message = ''Transaction not found'' \<rparr>"
    by (simp add: getTransactionById_def c owned_with_id_def example_store_def example_txn_def
        alice_def bob_def)
  from iso have writes:
    "filter (\<lambda>x. userId x = bob)
       (snd (updateTransaction 5000 example_store alice ''000000000000000000000002''
              (empty_body\<lparr>b_amount := Some 1\<rparr>))) =
      [example_txn ''000000000000000000000002'' bob ''expense'' 7 2000]
   \<and> filter (\<lambda>x. userId x = bob)
       (snd (deleteTransaction example_store alice ''000000000000000000000002'')) =
      [example_txn ''000000000000000000000002'' bob ''expense'' 7 2000]
   \<and> filter (\<lambda>x. userId x = bob)
       (snd (bulkDeleteTransactions example_store alice
              (IdArray [''000000000000000000000001'', ''000000000000000000000002'']))) =
      [example_txn ''000000000000000000000002'' bob ''expense'' 7 2000]"
    by (simp only: bobs simp_thms)
  from ne mem listed lookup writes show ?thesis by blast
qed

section \<open>Partial update\<close>

lemma update_first_split:
  assumes "find P xs = Some t"
  shows "\<exists>pre post. xs = pre @ t # post \<and> (\<forall>x\<in>set pre. \<not> P x) \<and> P t
           \<and> update_first P f xs = pre @ f t # post"
  using assms
proof (induction xs)
  case Nil
  then show ?case by simp
next
  case (Cons x xs)
  show ?case
  proof (cases "P x")
    case True
    with Cons.prems have "x = t" by simp
    with True have "x # xs = [] @ t # xs \<and> (\<forall>y\<in>set []. \<not> P y) \<and> P t
        \<and> update_first P f (x # xs) = [] @ f t # xs"
      by simp
    then show ?thesis by blast
  next
    case False
    with Cons.prems have "find P xs = Some t" by simp
    from Cons.IH [OF this] obtain pre post where
      IH: "xs = pre @ t # post" "\<forall>y\<in>set pre. \<not> P y" "P t"
        "update_first P f xs = pre @ f t # post"
      by blast
    with False have "x # xs = (x # pre) @ t # post \<and> (\<forall>y\<in>set (x # pre). \<not> P y) \<and> P t
        \<and> update_first P f (x # xs) = (x # pre) @ f t # post"
      by simp
    then show ?thesis by blast
  qed
qed

lemma apply_update_frame:
  "kept_by_update t (apply_update now b t) \<and> set_by_update b t (apply_update now b t)
   \<and> updatedAt (apply_update now b t) = now"
  by (simp add: kept_by_update_def set_by_update_def apply_update_def)

text \<open>
  The \<open>trim\<close> setter strips the no-break space as it strips the space, and a category
  of white space only is stored empty, which \<open>required\<close> refuses.
\<close>

lemma trim_setter_examples:
  "trim ('' '' @ [CHR 0xA0] @ ''Food  '' @ [CHR 0x09]) = ''Food''"
  "trim [CHR 0xA0] = []"
  "\<not> valid_category (trim [CHR 0xA0])"
  by (simp_all add: trim_def is_space_def valid_category_def)

text \<open>
  C9, as amended. \<open>updateTransaction\<close> answers 500 and changes nothing when the id is
  not an ObjectId or a supplied value fails its validator; it answers 404 and changes
  nothing when the id is an ObjectId that no document of the caller has; otherwise it
  replaces the first document of the caller with that id, and no other, by a document
  with the same id, owner, attachments and creation time, in which each of the eight
  fields has the supplied value if one was supplied, a string as the \<open>trim\<close> setter
  (\<open>String.prototype.trim\<close>) leaves it, and its former value if not, and \<open>updatedAt\<close>
  is the time of the update.
\<close>

theorem update_partial:
  "(castObjectId id_param = None \<or> \<not> supplied_valid b \<longrightarrow>
      updateTransaction now db uid id_param b =
        (Inl \<lparr> status = 500, message = ''Error updating transaction'' \<rparr>, db))
   \<and> (\<forall>i. castObjectId id_param = Some i \<and> supplied_valid b \<and>
          find (owned_with_id i uid) db = None \<longrightarrow>
        updateTransaction now db uid id_param b =
          (Inl \<lparr> status = 404, message = ''Transaction not found'' \<rparr>, db))
   \<and> (\<forall>i t. castObjectId id_param = Some i \<and> supplied_valid b \<and>
          find (owned_with_id i uid) db = Some t \<longrightarrow>
        (\<exists>pre post t'.
           db = pre @ t # post \<and> (\<forall>x\<in>set pre. \<not> owned_with_id i uid x) \<and>
           owned_with_id i uid t \<and>
           updateTransaction now db uid id_param b = (Inr t', pre @ t' # post) \<and>
           kept_by_update t t' \<and> set_by_update b t t' \<and> updatedAt t' = now))"
proof -
  have bad: "updateTransaction now db uid id_param b =
        (Inl \<lparr> status = 500, message = ''Error updating transaction'' \<rparr>, db)"
    if "castObjectId id_param = None \<or> \<not> supplied_valid b"
    using that by (auto simp: updateTransaction_def split: option.split)
  have missing: "updateTransaction now db uid id_param b =
          (Inl \<lparr> status = 404, message = ''Transaction not found'' \<rparr>, db)"
    if "castObjectId id_param = Some i" "supplied_valid b" "find (owned_with_id i uid) db = None"
    for i
    using that by (simp add: updateTransaction_def)
  have found: "\<exists>pre post t'.
           db = pre @ t # post \<and> (\<forall>x\<in>set pre. \<not> owned_with_id i uid x) \<and>
           owned_with_id i uid t \<and>
           updateTransaction now db uid id_param b = (Inr t', pre @ t' # post) \<and>
           kept_by_update t t' \<and> set_by_update b t t' \<and> updatedAt t' = now"
    if c: "castObjectId id_param = Some i" and v: "supplied_valid b"
      and f: "find (owned_with_id i uid) db = Some t"
    for i t
  proof -
    from update_first_split [OF f, of "apply_update now b"] obtain pre post where
      s: "db = pre @ t # post" "\<forall>x\<in>set pre. \<not> owned_with_id i uid x" "owned_with_id i uid t"
        "update_first (owned_with_id i uid) (apply_update now b) db =
           pre @ apply_update now b t # post"
      by blast
    have "updateTransaction now db uid id_param b =
        (Inr (apply_update now b t), pre @ apply_update now b t # post)"
      using c v f s(4) by (simp add: updateTransaction_def)
    with s(1,2,3) apply_update_frame [of t now b] show ?thesis by blast
  qed
  from bad missing found show ?thesis by blast
qed

theorem update_partial_witness:
  "updateTransaction 5000 example_store alice ''000000000000000000000009''
       (empty_body\<lparr>b_amount := Some 9\<rparr>) =
     (Inl \<lparr> status = 404, message = ''Transaction not found'' \<rparr>, example_store)
   \<and> updateTransaction 5000 example_store alice ''000000000000000000000001''
       (empty_body\<lparr>b_amount := Some 0\<rparr>) =
     (Inl \<lparr> status = 500, message = ''Error updating transaction'' \<rparr>, example_store)
   \<and> (\<exists>pre post t'.
         example_store =
           pre @ example_txn ''000000000000000000000003'' alice ''expense'' 3 3000 # post \<and>
         updateTransaction 5000 example_store alice ''000000000000000000000003''
           (empty_body\<lparr>b_amount := Some 9\<rparr>) = (Inr t', pre @ t' # post) \<and>
         amount t' = 9 \<and> category t' = ''Food'' \<and> userId t' = alice \<and> updatedAt t' = 5000)"
proof -
  have c: "castObjectId ''000000000000000000000009'' = Some ''000000000000000000000009''"
    by (simp add: castObjectId_def is_hex_def lower_hex_def hex_digits_def)
  have v: "supplied_valid (empty_body\<lparr>b_amount := Some 9\<rparr>)"
    by (simp add: supplied_valid_def opt_all_def empty_body_def valid_amount_def)
  have f: "find (owned_with_id ''000000000000000000000009'' alice) example_store = None"
    by (simp add: example_store_def example_txn_def owned_with_id_def)
  have nv: "\<not> supplied_valid (empty_body\<lparr>b_amount := Some 0\<rparr>)"
    by (simp add: supplied_valid_def opt_all_def empty_body_def valid_amount_def)
  from update_partial [of "''000000000000000000000009''" "empty_body\<lparr>b_amount := Some 9\<rparr>"
      5000 example_store alice] c v f
  have a: "updateTransaction 5000 example_store alice ''000000000000000000000009''
       (empty_body\<lparr>b_amount := Some 9\<rparr>) =
     (Inl \<lparr> status = 404, message = ''Transaction not found'' \<rparr>, example_store)"
    by blast
  from update_partial [of "''000000000000000000000001''" "empty_body\<lparr>b_amount := Some 0\<rparr>"
      5000 example_store alice] nv
  have b: "updateTransaction 5000 example_store alice ''000000000000000000000001''
       (empty_body\<lparr>b_amount := Some 0\<rparr>) =
     (Inl \<lparr> status = 500, message = ''Error updating transaction'' \<rparr>, example_store)"
    by blast
  have c3: "castObjectId ''000000000000000000000003'' = Some ''000000000000000000000003''"
    by (simp add: castObjectId_def is_hex_def lower_hex_def hex_digits_def)
  have f3: "find (owned_with_id ''000000000000000000000003'' alice) example_store =
      Some (example_txn ''000000000000000000000003'' alice ''expense'' 3 3000)"
    by (simp add: example_store_def example_txn_def owned_with_id_def alice_def bob_def)
  from update_partial [of "''000000000000000000000003''" "empty_body\<lparr>b_amount := Some 9\<rparr>"
      5000 example_store alice] c3 v f3
  obtain pre post t' where
    u: "example_store =
          pre @ example_txn ''000000000000000000000003'' alice ''expense'' 3 3000 # post"
      "updateTransaction 5000 example_store alice ''000000000000000000000003''
         (empty_body\<lparr>b_amount := Some 9\<rparr>) = (Inr t', pre @ t' # post)"
      "kept_by_update (example_txn ''000000000000000000000003'' alice ''expense'' 3 3000) t'"
      "set_by_update (empty_body\<lparr>b_amount := Some 9\<rparr>)
         (example_txn ''000000000000000000000003'' alice ''expense'' 3 3000) t'"
      "updatedAt t' = 5000"
    by blast
  from u(3) have k: "userId t' = alice"
    by (simp add: kept_by_update_def example_txn_def)
  from u(4) have st: "amount t' = 9" "category t' = ''Food''"
    by (simp_all add: set_by_update_def empty_body_def example_txn_def)
  from u(1,2,5) k st have c: "\<exists>pre post t'.
         example_store =
           pre @ example_txn ''000000000000000000000003'' alice ''expense'' 3 3000 # post \<and>
         updateTransaction 5000 example_store alice ''000000000000000000000003''
           (empty_body\<lparr>b_amount := Some 9\<rparr>) = (Inr t', pre @ t' # post) \<and>
         amount t' = 9 \<and> category t' = ''Food'' \<and> userId t' = alice \<and> updatedAt t' = 5000"
    by blast
  from a b c show ?thesis by blast
qed

text \<open>
  The claim as it stands fails twice: for an id that is not an ObjectId, no document of
  the caller has it and the answer is 500, not 404; and \<open>updatedAt\<close>, which the body
  does not supply, does not keep its value.
\<close>

theorem update_partial_counterexample:
  "find (\<lambda>t. t_id t = ''xyz'' \<and> userId t = alice) example_store = None
   \<and> updateTransaction 5000 example_store alice ''xyz'' (empty_body\<lparr>b_amount := Some 9\<rparr>) =
     (Inl \<lparr> status = 500, message = ''Error updating transaction'' \<rparr>, example_store)
   \<and> updatedAt (hd example_store) = 1000
   \<and> updatedAt (hd (snd (updateTransaction 5000 example_store alice
        ''000000000000000000000001'' (empty_body\<lparr>b_amount := Some 9\<rparr>)))) = 5000"
proof -
  have c: "castObjectId ''xyz'' = None"
    by (simp add: castObjectId_def)
  have c1: "castObjectId ''000000000000000000000001'' = Some ''000000000000000000000001''"
    by (simp add: castObjectId_def is_hex_def lower_hex_def hex_digits_def)
  have v: "supplied_valid (empty_body\<lparr>b_amount := Some 9\<rparr>)"
    by (simp add: supplied_valid_def opt_all_def empty_body_def valid_amount_def)
  show ?thesis
    by (simp add: updateTransaction_def c c1 v example_store_def example_txn_def
        owned_with_id_def apply_update_def alice_def bob_def)
qed

section \<open>Properties of the auth controller\<close>

lemma refresh_wrong_type:
  assumes "\<not> has_refresh_type tok"
  shows "refreshToken env now users (Some tok) \<in>
     {Inl \<lparr> status = 401, message = ''Invalid refresh token'' \<rparr>,
      Inl \<lparr> status = 401, message = ''Refresh token expired'' \<rparr>,
      Inl \<lparr> status = 401, message = ''Invalid token type'' \<rparr>}"
proof (cases "jwt_verify tok (env_or (JWT_REFRESH_SECRET env) (JWT_SECRET env)) now")
  case (Inl e)
  then show ?thesis by (cases e) (simp_all add: refreshToken_def)
next
  case (Inr decoded)
  then obtain k where "tok = Signed decoded k"
    by (cases tok) (simp_all add: jwt_verify_def split: if_splits)
  with assms have "p_type decoded \<noteq> Some ''refresh''"
    by (simp add: has_refresh_type_def)
  with Inr show ?thesis by (simp add: refreshToken_def)
qed

lemma access_token_type:
  assumes "generateToken env t0 uid = Some tok"
  shows "\<not> has_refresh_type tok"
  using assms by (auto simp: generateToken_def jwt_sign_def has_refresh_type_def
      split: option.splits if_splits)

text \<open>
  C5. A presented token without the type claim \<open>'refresh'\<close> is answered with status 401,
  so no token pair is issued; when its signature verifies and it has not expired, the
  message is that of the type check. A token made by \<open>generateToken\<close> has no type claim.
\<close>

theorem refresh_rejects_wrong_type:
  "(\<not> has_refresh_type tok \<longrightarrow>
      (\<exists>m. refreshToken env now users (Some tok) = Inl \<lparr> status = 401, message = m \<rparr>)
      \<and> (\<forall>decoded. jwt_verify tok (env_or (JWT_REFRESH_SECRET env) (JWT_SECRET env)) now =
            Inr decoded \<longrightarrow>
          refreshToken env now users (Some tok) =
            Inl \<lparr> status = 401, message = ''Invalid token type'' \<rparr>))
   \<and> (generateToken env issued uid = Some tok \<longrightarrow> \<not> has_refresh_type tok)"
proof -
  have a: "\<exists>m. refreshToken env now users (Some tok) = Inl \<lparr> status = 401, message = m \<rparr>"
    if "\<not> has_refresh_type tok"
    using refresh_wrong_type [OF that, of env now users] by auto
  have b: "refreshToken env now users (Some tok) =
            Inl \<lparr> status = 401, message = ''Invalid token type'' \<rparr>"
    if "\<not> has_refresh_type tok"
      and "jwt_verify tok (env_or (JWT_REFRESH_SECRET env) (JWT_SECRET env)) now = Inr decoded"
    for decoded
  proof -
    from that(2) obtain k where "tok = Signed decoded k"
      by (cases tok) (simp_all add: jwt_verify_def split: if_splits)
    with that(1) have "p_type decoded \<noteq> Some ''refresh''"
      by (simp add: has_refresh_type_def)
    with that(2) show ?thesis by (simp add: refreshToken_def)
  qed
  from a b access_token_type show ?thesis by blast
qed

theorem refresh_rejects_wrong_type_witness:
  "generateToken example_auth_env 0 alice =
     Some (Signed \<lparr> p_id = alice, p_type = None, p_iat = 0, p_exp = 86400000 \<rparr> ''secret'')
   \<and> jwt_verify (Signed \<lparr> p_id = alice, p_type = None, p_iat = 0, p_exp = 86400000 \<rparr> ''secret'')
        (env_or (JWT_REFRESH_SECRET example_auth_env) (JWT_SECRET example_auth_env)) 1000 =
      Inr \<lparr> p_id = alice, p_type = None, p_iat = 0, p_exp = 86400000 \<rparr>
   \<and> refreshToken example_auth_env 1000 example_users
        (Some (Signed \<lparr> p_id = alice, p_type = None, p_iat = 0, p_exp = 86400000 \<rparr> ''secret'')) =
      Inl \<lparr> status = 401, message = ''Invalid token type'' \<rparr>"
proof -
  have g: "generateToken example_auth_env 0 alice =
     Some (Signed \<lparr> p_id = alice, p_type = None, p_iat = 0, p_exp = 86400000 \<rparr> ''secret'')"
    by (simp add: generateToken_def jwt_sign_def example_auth_env_def)
  have v: "jwt_verify (Signed \<lparr> p_id = alice, p_type = None, p_iat = 0, p_exp = 86400000 \<rparr> ''secret'')
        (env_or (JWT_REFRESH_SECRET example_auth_env) (JWT_SECRET example_auth_env)) 1000 =
      Inr \<lparr> p_id = alice, p_type = None, p_iat = 0, p_exp = 86400000 \<rparr>"
    by (simp add: jwt_verify_def env_or_def truthy_def example_auth_env_def)
  from refresh_rejects_wrong_type [where
      tok = "Signed \<lparr> p_id = alice, p_type = None, p_iat = 0, p_exp = 86400000 \<rparr> ''secret''"
      and env = example_auth_env and now = 1000 and users = example_users and issued = 0
      and uid = alice] g v
  show ?thesis by blast
qed

text \<open>The two setters of the email commute, so the order in which they run is immaterial.\<close>

lemma is_space_lower_char: "is_space (lower_char c) \<longleftrightarrow> is_space c"
  by (simp add: lower_char_def upper_letters_def lower_letters_def is_space_def)

lemma dropWhile_lower:
  "dropWhile is_space (map lower_char s) = map lower_char (dropWhile is_space s)"
  by (induction s) (simp_all add: is_space_lower_char)

lemma setters_commute: "trim (toLowerCase e) = toLowerCase (trim e)"
  by (simp add: trim_def toLowerCase_def dropWhile_lower rev_map)

lemma forgot_response_uniform:
  assumes "NODE_ENV env \<noteq> Some ''development''"
  shows "fst (forgotPassword sha env now resetToken users email) =
           \<lparr> fr_message = uniform_message, fr_resetToken = None \<rparr>"
  using assms
  by (simp add: forgotPassword_def uniform_message_def Let_def split: option.split)

lemma forgot_unknown:
  assumes "find (\<lambda>u. u_email u = email_setters email \<and> u_isActive u) users = None"
  shows "snd (forgotPassword sha env now resetToken users email) = users"
  using assms by (simp add: forgotPassword_def)

lemma forgot_known:
  assumes "find (\<lambda>u. u_email u = email_setters email \<and> u_isActive u) users = Some found"
  shows "\<exists>pre stored post.
           users = pre @ stored # post \<and> u_id stored = u_id found \<and>
           snd (forgotPassword sha env now resetToken users email) =
             pre @ stored \<lparr> passwordResetToken := Some (sha resetToken),
                             passwordResetExpires := Some (now + 600000),
                             u_updatedAt := now \<rparr> # post"
proof -
  from find_SomeD [OF assms] have "found \<in> set users" by simp
  then have "find (\<lambda>u. u_id u = u_id found) users \<noteq> None"
    by (auto simp: find_None_iff)
  then obtain stored where st: "find (\<lambda>u. u_id u = u_id found) users = Some stored"
    by blast
  let ?f = "\<lambda>u. u \<lparr> passwordResetToken := Some (sha resetToken),
                   passwordResetExpires := Some (now + 600000), u_updatedAt := now \<rparr>"
  from update_first_split [OF st, of ?f] obtain pre post where
    s: "users = pre @ stored # post" "u_id stored = u_id found"
      "update_first (\<lambda>u. u_id u = u_id found) ?f users = pre @ ?f stored # post"
    by blast
  have "snd (forgotPassword sha env now resetToken users email) =
             pre @ stored \<lparr> passwordResetToken := Some (sha resetToken),
                             passwordResetExpires := Some (now + 600000),
                             u_updatedAt := now \<rparr> # post"
    using assms by (simp add: forgotPassword_def Let_def s(3))
  with s(1,2) show ?thesis by blast
qed

text \<open>
  C6, as amended. Unless \<open>NODE_ENV\<close> is \<open>development\<close>, the response of
  \<open>forgotPassword\<close> is the same whatever the email, the clock and the random token. An
  email belongs to the active user whose stored email is the requested one after the
  schema's setters (lower case, trimmed). For an email of no active user the users are
  left as they were: no token is made or stored. For an email of an active user, the
  stored document with that user's id gets the hash of the random token and an expiry
  600000 ms (10 minutes) after the clock reading, and nothing else changes but
  \<open>updatedAt\<close>.
\<close>

theorem forgot_password_uniform:
  "(NODE_ENV env \<noteq> Some ''development'' \<longrightarrow>
      fst (forgotPassword sha env now resetToken users email) =
        \<lparr> fr_message = uniform_message, fr_resetToken = None \<rparr>
      \<and> fst (forgotPassword sha env now resetToken users email) =
          fst (forgotPassword sha env now' resetToken' users email'))
   \<and> (find (\<lambda>u. u_email u = email_setters email \<and> u_isActive u) users = None \<longrightarrow>
        snd (forgotPassword sha env now resetToken users email) = users)
   \<and> (\<forall>found. find (\<lambda>u. u_email u = email_setters email \<and> u_isActive u) users = Some found \<longrightarrow>
        (\<exists>pre stored post.
           users = pre @ stored # post \<and> u_id stored = u_id found \<and>
           snd (forgotPassword sha env now resetToken users email) =
             pre @ stored \<lparr> passwordResetToken := Some (sha resetToken),
                             passwordResetExpires := Some (now + 600000),
                             u_updatedAt := now \<rparr> # post))"
proof -
  have same: "fst (forgotPassword sha env now resetToken users email) =
        \<lparr> fr_message = uniform_message, fr_resetToken = None \<rparr>
      \<and> fst (forgotPassword sha env now resetToken users email) =
          fst (forgotPassword sha env now' resetToken' users email')"
    if "NODE_ENV env \<noteq> Some ''development''"
    by (simp only: forgot_response_uniform [OF that])
  have unknown: "snd (forgotPassword sha env now resetToken users email) = users"
    if "find (\<lambda>u. u_email u = email_setters email \<and> u_isActive u) users = None"
    using that by (rule forgot_unknown)
  have known: "\<exists>pre stored post.
           users = pre @ stored # post \<and> u_id stored = u_id found \<and>
           snd (forgotPassword sha env now resetToken users email) =
             pre @ stored \<lparr> passwordResetToken := Some (sha resetToken),
                             passwordResetExpires := Some (now + 600000),
                             u_updatedAt := now \<rparr> # post"
    if "find (\<lambda>u. u_email u = email_setters email \<and> u_isActive u) users = Some found" for found
    using that by (rule forgot_known)
  from same unknown known show ?thesis by blast
qed

lemma email_setters_examples:
  "email_setters '' ALICE@Example.COM  '' = ''alice@example.com''"
  "email_setters ''alice@example.com'' = ''alice@example.com''"
  "email_setters ''nobody@example.com'' = ''nobody@example.com''"
  by (simp_all add: email_setters_def trim_def is_space_def toLowerCase_def lower_char_def
      upper_letters_def lower_letters_def)

theorem forgot_password_uniform_witness:
  "fst (forgotPassword example_hash example_auth_env 1000 ''r4nd0m'' example_users
          '' ALICE@Example.COM  '') =
     fst (forgotPassword example_hash example_auth_env 1000 ''r4nd0m'' example_users
          ''nobody@example.com'')
   \<and> snd (forgotPassword example_hash example_auth_env 1000 ''r4nd0m'' example_users
          ''nobody@example.com'') = example_users
   \<and> (\<exists>pre stored post.
         example_users = pre @ stored # post \<and> u_id stored = alice \<and>
         snd (forgotPassword example_hash example_auth_env 1000 ''r4nd0m'' example_users
               '' ALICE@Example.COM  '') =
           pre @ stored \<lparr> passwordResetToken := Some ''sha256:r4nd0m'',
                           passwordResetExpires := Some 601000,
                           u_updatedAt := 1000 \<rparr> # post)"
proof -
  have e: "NODE_ENV example_auth_env \<noteq> Some ''development''"
    by (simp add: example_auth_env_def)
  have n: "find (\<lambda>u. u_email u = email_setters ''nobody@example.com'' \<and> u_isActive u)
      example_users = None"
    by (simp add: email_setters_examples example_users_def example_user_def)
  have k: "find (\<lambda>u. u_email u = email_setters '' ALICE@Example.COM  '' \<and> u_isActive u)
      example_users = Some (example_user alice ''alice@example.com'')"
    by (simp add: email_setters_examples example_users_def example_user_def)
  have i: "u_id (example_user alice ''alice@example.com'') = alice"
    by (simp add: example_user_def)
  have h: "example_hash ''r4nd0m'' = ''sha256:r4nd0m''"
    by (simp add: example_hash_def)
  from forgot_password_uniform [where env = example_auth_env and sha = example_hash
      and now = 1000 and resetToken = "''r4nd0m''" and users = example_users
      and email = "'' ALICE@Example.COM  ''" and now' = 1000 and resetToken' = "''r4nd0m''"
      and email' = "''nobody@example.com''"] e k
  have a: "fst (forgotPassword example_hash example_auth_env 1000 ''r4nd0m'' example_users
          '' ALICE@Example.COM  '') =
     fst (forgotPassword example_hash example_auth_env 1000 ''r4nd0m'' example_users
          ''nobody@example.com'')"
    and c: "\<exists>pre stored post.
         example_users = pre @ stored # post \<and>
         u_id stored = u_id (example_user alice ''alice@example.com'') \<and>
         snd (forgotPassword example_hash example_auth_env 1000 ''r4nd0m'' example_users
               '' ALICE@Example.COM  '') =
           pre @ stored \<lparr> passwordResetToken := Some (example_hash ''r4nd0m''),
                           passwordResetExpires := Some (1000 + 600000),
                           u_updatedAt := 1000 \<rparr> # post"
    by blast+
  from forgot_password_uniform [where env = example_auth_env and sha = example_hash
      and now = 1000 and resetToken = "''r4nd0m''" and users = example_users
      and email = "''nobody@example.com''"] n
  have b: "snd (forgotPassword example_hash example_auth_env 1000 ''r4nd0m'' example_users
          ''nobody@example.com'') = example_users"
    by blast
  from c have c': "\<exists>pre stored post.
         example_users = pre @ stored # post \<and> u_id stored = alice \<and>
         snd (forgotPassword example_hash example_auth_env 1000 ''r4nd0m'' example_users
               '' ALICE@Example.COM  '') =
           pre @ stored \<lparr> passwordResetToken := Some ''sha256:r4nd0m'',
                           passwordResetExpires := Some 601000,
                           u_updatedAt := 1000 \<rparr> # post"
    by (simp only: i h) simp
  from a b c' show ?thesis by blast
qed

text \<open>
  The claim as it stands fails when \<open>NODE_ENV\<close> is \<open>development\<close>: the response for a
  known email has another message and carries the raw token.
\<close>

theorem forgot_password_uniform_counterexample:
  "find (\<lambda>u. u_email u = email_setters ''alice@example.com'' \<and> u_isActive u) example_users =
     Some (example_user alice ''alice@example.com'')
   \<and> find (\<lambda>u. u_email u = email_setters ''nobody@example.com'') example_users = None
   \<and> fst (forgotPassword example_hash (example_auth_env\<lparr>NODE_ENV := Some ''development''\<rparr>)
          1000 ''r4nd0m'' example_users ''alice@example.com'') =
      \<lparr> fr_message = ''Password reset link sent'', fr_resetToken = Some ''r4nd0m'' \<rparr>
   \<and> fst (forgotPassword example_hash (example_auth_env\<lparr>NODE_ENV := Some ''development''\<rparr>)
          1000 ''r4nd0m'' example_users ''nobody@example.com'') =
      \<lparr> fr_message = uniform_message, fr_resetToken = None \<rparr>
   \<and> fst (forgotPassword example_hash (example_auth_env\<lparr>NODE_ENV := Some ''development''\<rparr>)
          1000 ''r4nd0m'' example_users ''alice@example.com'') \<noteq>
      fst (forgotPassword example_hash (example_auth_env\<lparr>NODE_ENV := Some ''development''\<rparr>)
          1000 ''r4nd0m'' example_users ''nobody@example.com'')"
  by (simp add: forgotPassword_def Let_def email_setters_examples example_users_def
      example_user_def example_auth_env_def uniform_message_def)

section \<open>Creating a transaction\<close>

lemma new_transaction_props:
  assumes "new_transaction now new_id uid b = Some t"
  shows "userId t = uid \<and> t_id t = new_id \<and> b_amount b = Some (amount t) \<and> valid_amount (amount t)"
  using assms
  by (auto simp: new_transaction_def supplied_valid_def opt_all_def
      split: option.splits if_splits)

lemma createTransaction_rejects_amount:
  assumes "b_amount b = Some a" and "\<not> a > 0"
  shows "createTransaction now new_id db uid b =
     (Inl \<lparr> status = 500, message = ''Error creating transaction'' \<rparr>, db)"
proof -
  have "new_transaction now new_id uid b = None"
    using assms
    by (auto simp: new_transaction_def supplied_valid_def opt_all_def valid_amount_def
        split: option.splits)
  then show ?thesis by (simp add: createTransaction_def)
qed

text \<open>
  C8. On the route \<open>POST /\<close>, with the validation modelled from the spec in front of
  \<open>createTransaction\<close>: a supplied amount that is not greater than 0 is answered with
  status 400 and the store is unchanged; every success appends exactly one document,
  the one returned, whose owner is the caller and whose amount is greater than 0;
  every failure leaves the store unchanged; and a body with type, amount and category
  whose supplied values pass the validators of the schema succeeds.
\<close>

theorem create_validates_amount:
  "(\<forall>a. b_amount b = Some a \<and> \<not> a > 0 \<longrightarrow>
      (\<exists>m. route_create now new_id db uid b = (Inl \<lparr> status = 400, message = m \<rparr>, db)))
   \<and> (\<forall>t db'. route_create now new_id db uid b = (Inr t, db') \<longrightarrow>
        db' = db @ [t] \<and> userId t = uid \<and> t_id t = new_id \<and> amount t > 0)
   \<and> (\<forall>f db'. route_create now new_id db uid b = (Inl f, db') \<longrightarrow> db' = db)
   \<and> (\<forall>ty a c. b_type b = Some ty \<and> b_amount b = Some a \<and> b_category b = Some c \<and>
          supplied_valid b \<longrightarrow>
        (\<exists>t. route_create now new_id db uid b = (Inr t, db @ [t]) \<and> userId t = uid))"
proof -
  have bad: "\<exists>m. route_create now new_id db uid b = (Inl \<lparr> status = 400, message = m \<rparr>, db)"
    if "b_amount b = Some a" "\<not> a > 0" for a
    using that by (simp add: route_create_def validateTransaction_def)
  have ok: "db' = db @ [t] \<and> userId t = uid \<and> t_id t = new_id \<and> amount t > 0"
    if r: "route_create now new_id db uid b = (Inr t, db')" for t db'
  proof -
    from r have c: "createTransaction now new_id db uid b = (Inr t, db')"
      by (simp add: route_create_def split: option.splits)
    then have n: "new_transaction now new_id uid b = Some t" and d: "db' = db @ [t]"
      by (auto simp: createTransaction_def split: option.splits)
    from new_transaction_props [OF n] d show ?thesis
      by (simp add: valid_amount_def)
  qed
  have err: "db' = db" if "route_create now new_id db uid b = (Inl f, db')" for f db'
    using that
    by (auto simp: route_create_def createTransaction_def split: option.splits)
  have good: "\<exists>t. route_create now new_id db uid b = (Inr t, db @ [t]) \<and> userId t = uid"
    if "b_type b = Some ty" "b_amount b = Some a" "b_category b = Some c" "supplied_valid b"
    for ty a c
  proof -
    from that have "valid_amount a"
      by (simp add: supplied_valid_def opt_all_def)
    then have "a > 0" by (simp add: valid_amount_def)
    with that(2) have v: "validateTransaction b = None"
      by (simp add: validateTransaction_def)
    from that obtain t where n: "new_transaction now new_id uid b = Some t"
      by (simp add: new_transaction_def)
    from new_transaction_props [OF n] have "userId t = uid" by simp
    with v n show ?thesis
      by (simp add: route_create_def createTransaction_def)
  qed
  from bad ok err good show ?thesis by blast
qed

theorem create_validates_amount_witness:
  "(\<exists>m. route_create 5000 ''000000000000000000000005'' example_store alice
          (example_body\<lparr>b_amount := Some 0\<rparr>) =
        (Inl \<lparr> status = 400, message = m \<rparr>, example_store))
   \<and> (\<exists>t. route_create 5000 ''000000000000000000000005'' example_store alice example_body =
          (Inr t, example_store @ [t]) \<and> userId t = alice)"
proof -
  have z: "b_amount (example_body\<lparr>b_amount := Some 0\<rparr>) = Some 0 \<and> \<not> (0::rat) > 0"
    by simp
  have f: "b_type example_body = Some ''expense''" "b_amount example_body = Some (85 / 2)"
    "b_category example_body = Some ''Food & Dining''"
    by (simp_all add: example_body_def)
  have tr: "trim ''Food & Dining'' = ''Food & Dining''"
    by (simp add: trim_def is_space_def)
  have v: "supplied_valid example_body"
    by (simp add: supplied_valid_def opt_all_def example_body_def valid_type_def
        valid_amount_def valid_category_def tr)
  from create_validates_amount [of "example_body\<lparr>b_amount := Some 0\<rparr>" 5000
      "''000000000000000000000005''" example_store alice] z
  have a: "\<exists>m. route_create 5000 ''000000000000000000000005'' example_store alice
          (example_body\<lparr>b_amount := Some 0\<rparr>) =
        (Inl \<lparr> status = 400, message = m \<rparr>, example_store)"
    by blast
  from create_validates_amount [of example_body 5000 "''000000000000000000000005''"
      example_store alice] f v
  have b: "\<exists>t. route_create 5000 ''000000000000000000000005'' example_store alice example_body =
          (Inr t, example_store @ [t]) \<and> userId t = alice"
    by blast
  from a b show ?thesis by (rule conjI)
qed

section \<open>The bulk deletion route\<close>

lemma first_route_not_bulk:
  "first_route m p transaction_routes \<noteq> Some (BulkDeleteTransactions, v)"
proof (cases m)
  case DELETE
  show ?thesis
  proof (cases "path_match Param p")
    case None
    then have "path_match (Literal ''bulk'') p = None"
    proof (cases p)
      case Nil
      then show ?thesis by simp
    next
      case (Cons s ss)
      with None show ?thesis by (cases ss) simp_all
    qed
    with None DELETE show ?thesis by (simp add: transaction_routes_def)
  next
    case (Some a)
    with DELETE show ?thesis by (simp add: transaction_routes_def)
  qed
qed (simp_all add: transaction_routes_def split: option.split)

text \<open>
  C4. The claim does not hold of the router: \<open>DELETE /:id\<close> is declared before
  \<open>DELETE /bulk\<close>, so no request reaches \<open>bulkDeleteTransactions\<close>. The request
  \<open>DELETE /bulk\<close> is handled by \<open>deleteTransaction\<close> with the id \<open>bulk\<close>, which is not
  an ObjectId: the answer is 500 and nothing is deleted, where the handler the route
  was meant for would delete the one listed document of the caller and report 1.
\<close>

theorem bulk_route_unreachable:
  "(\<forall>m p v. dispatch m p \<noteq> Some (BulkDeleteTransactions, v))
   \<and> dispatch DELETE [''bulk''] = Some (DeleteTransaction, ''bulk'')
   \<and> serve example_ctx example_store bulk_request =
       Some (Failed \<lparr> status = 500, message = ''Error deleting transaction'' \<rparr>, example_store)
   \<and> bulkDeleteTransactions example_store alice (rq_transactionIds bulk_request) =
       (Inr 1, [example_txn ''000000000000000000000002'' bob ''expense'' 7 2000,
                example_txn ''000000000000000000000003'' alice ''expense'' 3 3000,
                example_txn ''000000000000000000000004'' alice ''income'' 4 2000])"
proof -
  have a: "\<forall>m p v. dispatch m p \<noteq> Some (BulkDeleteTransactions, v)"
    by (simp add: dispatch_def first_route_not_bulk)
  have b: "dispatch DELETE [''bulk''] = Some (DeleteTransaction, ''bulk'')"
    by (simp add: dispatch_def transaction_routes_def)
  have auth: "authMiddleware example_auth_env 5000 (Some example_access_token) = Inr alice"
    by (simp add: authMiddleware_def jwt_verify_def truthy_def example_auth_env_def
        example_access_token_def)
  have cast: "castObjectId ''bulk'' = None"
    by (simp add: castObjectId_def)
  have c: "serve example_ctx example_store bulk_request =
       Some (Failed \<lparr> status = 500, message = ''Error deleting transaction'' \<rparr>, example_store)"
    by (simp add: serve_def example_ctx_def bulk_request_def auth b deleteTransaction_def cast
        respond_def)
  have ids: "castObjectId ''000000000000000000000001'' = Some ''000000000000000000000001''"
    "castObjectId ''000000000000000000000002'' = Some ''000000000000000000000002''"
    by (simp_all add: castObjectId_def is_hex_def lower_hex_def hex_digits_def)
  have d: "bulkDeleteTransactions example_store alice (rq_transactionIds bulk_request) =
       (Inr 1, [example_txn ''000000000000000000000002'' bob ''expense'' 7 2000,
                example_txn ''000000000000000000000003'' alice ''expense'' 3 3000,
                example_txn ''000000000000000000000004'' alice ''income'' 4 2000])"
    by (simp add: bulkDeleteTransactions_def bulk_request_def ids bulk_selected_def
        example_store_def example_txn_def alice_def bob_def)
  from a b c d show ?thesis by blast
qed

section \<open>The client's recovery from 401\<close>

lemma urls_differ: "API_BASE_URL @ ''/transactions'' \<noteq> refresh_url"
  by (simp add: refresh_url_def)

lemma first_call:
  "js_fetch (example_server stream) example_client original_request =
     (Returned (plain_response (API_BASE_URL @ ''/transactions'') 401 ''Token is not valid'' stream),
      example_client \<lparr> sent := [original_request] \<rparr>)"
  by (simp add: js_fetch_def example_server_def original_request_def example_client_def
      urls_differ)

lemma refresh_call:
  "client_refreshToken (example_server stream) (example_client \<lparr> sent := [original_request] \<rparr>) =
     (True, example_client \<lparr> ls_token := Some ''new'', ls_refreshToken := Some ''r2'',
              sent := [original_request, refresh_request ''r1''] \<rparr>)"
  by (simp add: client_refreshToken_def js_fetch_def example_server_def example_client_def
      refresh_request_def refresh_url_def [symmetric] refreshed_response_def ok_def
      stored_string_def)

lemma original_request_eq:
  "\<lparr> fq_url = API_BASE_URL @ ''/transactions'', fq_method = Some ''POST'',
     fq_authorization = getAuthHeaders example_client, fq_body = Some (Text ''B'') \<rparr> =
   original_request"
  by (simp add: original_request_def getAuthHeaders_def truthy_def example_client_def)

lemma retry_with_stream:
  "retryRequest n srv st u None (Some ResponseStream) = Some (Thrown TypeError, st)"
  by (simp add: js_fetch_def)

lemma retry_without_stream:
  "retryRequest (Suc n) (example_server False)
     (example_client \<lparr> ls_token := Some ''new'', ls_refreshToken := Some ''r2'',
        sent := [original_request, refresh_request ''r1''] \<rparr>)
     (API_BASE_URL @ ''/transactions'') None None =
   Some (Returned \<lparr> j_error = None, j_message = Some ''Transaction created successfully'',
                     j_token = None, j_refreshToken = None \<rparr>,
         example_client \<lparr> ls_token := Some ''new'', ls_refreshToken := Some ''r2'',
           sent := [original_request, refresh_request ''r1'',
                    \<lparr> fq_url = API_BASE_URL @ ''/transactions'', fq_method = None,
                      fq_authorization = Some ''new'', fq_body = None \<rparr>] \<rparr>)"
  by (simp add: js_fetch_def getAuthHeaders_def truthy_def example_server_def urls_differ
      plain_response_def ok_def)

lemma looping_refresh:
  assumes "ls_refreshToken st = Some r" and "r \<noteq> []"
  shows "client_refreshToken looping_server st =
     (True, st \<lparr> sent := sent st @ [refresh_request r], ls_token := Some ''new'',
                 ls_refreshToken := Some ''r2'' \<rparr>)"
  using assms
  by (simp add: client_refreshToken_def js_fetch_def looping_server_def refresh_request_def
      refresh_url_def [symmetric] refreshed_response_def ok_def stored_string_def)

lemma looping_handle:
  assumes "ls_refreshToken st = Some r" and "r \<noteq> []" and "u \<noteq> refresh_url"
  shows "handleResponse n looping_server st (plain_response u 401 m False) = None"
  using assms
proof (induction n arbitrary: st r m)
  case 0
  show ?case by simp
next
  case (Suc n)
  let ?st1 = "st \<lparr> sent := sent st @ [refresh_request r], ls_token := Some ''new'',
                 ls_refreshToken := Some ''r2'' \<rparr>"
  let ?rq = "\<lparr> fq_url = u, fq_method = None, fq_authorization = getAuthHeaders ?st1,
               fq_body = None \<rparr>"
  let ?st2 = "?st1 \<lparr> sent := sent ?st1 @ [?rq] \<rparr>"
  have r: "client_refreshToken looping_server st = (True, ?st1)"
    using Suc.prems(1,2) by (rule looping_refresh)
  have f: "js_fetch looping_server ?st1 ?rq =
      (Returned (plain_response u 401 ''Token is not valid'' False), ?st2)"
    using Suc.prems(3) by (simp add: js_fetch_def looping_server_def)
  have "ls_refreshToken ?st2 = Some ''r2''" by simp
  then have ih: "handleResponse n looping_server ?st2
      (plain_response u 401 ''Token is not valid'' False) = None"
    using Suc.prems(3) by (intro Suc.IH [where r = "''r2''"]) simp_all
  have "retryRequest n looping_server ?st1 u None None = None"
    by (simp only: retryRequest.simps f prod.case outcome.case ih)
  then show ?case
    by (simp add: r plain_response_def ok_def del: retryRequest.simps)
qed

lemma looping_never_returns:
  "\<forall>n. apiCall n looping_server example_client ''/transactions'' (Some ''POST'')
          (Some (Text ''B'')) = None"
proof
  fix n
  have f: "js_fetch looping_server example_client original_request =
     (Returned (plain_response (API_BASE_URL @ ''/transactions'') 401 ''Token is not valid'' False),
      example_client \<lparr> sent := [original_request] \<rparr>)"
    by (simp add: js_fetch_def looping_server_def original_request_def example_client_def
        urls_differ)
  have "ls_refreshToken (example_client \<lparr> sent := [original_request] \<rparr>) = Some ''r1''"
    by (simp add: example_client_def)
  then have h: "handleResponse n looping_server (example_client \<lparr> sent := [original_request] \<rparr>)
      (plain_response (API_BASE_URL @ ''/transactions'') 401 ''Token is not valid'' False) = None"
    using urls_differ by (intro looping_handle [where r = "''r1''"]) simp_all
  show "apiCall n looping_server example_client ''/transactions'' (Some ''POST'')
          (Some (Text ''B'')) = None"
    by (simp only: apiCall_def original_request_eq f h prod.case outcome.case)
qed

text \<open>
  C7. The claim does not hold of the client. A POST with a body is answered 401 and the
  refresh succeeds. Where responses have a body stream, \<open>retryRequest\<close> is given no
  method and that stream as the body, \<open>fetch\<close> raises a TypeError, and no replay is
  sent: the requests sent are the original one and the refresh, and the call fails
  with the session still stored. Where responses have no body stream, the replay is
  sent once, as a GET without a body. And against a server that refreshes any token
  and answers 401 otherwise, no fuel suffices for the call to return: refresh and
  replay go on without a bound.
\<close>

theorem retry_loses_request:
  "(\<forall>n. apiCall (Suc n) (example_server True) example_client ''/transactions''
           (Some ''POST'') (Some (Text ''B'')) =
         Some (Thrown TypeError,
               example_client \<lparr> ls_token := Some ''new'', ls_refreshToken := Some ''r2'',
                 sent := [original_request, refresh_request ''r1''] \<rparr>))
   \<and> (\<forall>n. apiCall (Suc (Suc n)) (example_server False) example_client ''/transactions''
           (Some ''POST'') (Some (Text ''B'')) =
         Some (Returned \<lparr> j_error = None, j_message = Some ''Transaction created successfully'',
                           j_token = None, j_refreshToken = None \<rparr>,
               example_client \<lparr> ls_token := Some ''new'', ls_refreshToken := Some ''r2'',
                 sent := [original_request, refresh_request ''r1'',
                          \<lparr> fq_url = API_BASE_URL @ ''/transactions'', fq_method = None,
                            fq_authorization = Some ''new'', fq_body = None \<rparr>] \<rparr>))
   \<and> (\<forall>n. apiCall n looping_server example_client ''/transactions'' (Some ''POST'')
           (Some (Text ''B'')) = None)"
proof -
  have h1: "handleResponse (Suc n) (example_server True)
        (example_client \<lparr> sent := [original_request] \<rparr>)
        (plain_response (API_BASE_URL @ ''/transactions'') 401 ''Token is not valid'' True) =
      Some (Thrown TypeError,
            example_client \<lparr> ls_token := Some ''new'', ls_refreshToken := Some ''r2'',
              sent := [original_request, refresh_request ''r1''] \<rparr>)" for n
    by (simp add: refresh_call retry_with_stream plain_response_def ok_def
        del: retryRequest.simps)
  have h2: "handleResponse (Suc (Suc n)) (example_server False)
        (example_client \<lparr> sent := [original_request] \<rparr>)
        (plain_response (API_BASE_URL @ ''/transactions'') 401 ''Token is not valid'' False) =
      Some (Returned \<lparr> j_error = None, j_message = Some ''Transaction created successfully'',
                           j_token = None, j_refreshToken = None \<rparr>,
               example_client \<lparr> ls_token := Some ''new'', ls_refreshToken := Some ''r2'',
                 sent := [original_request, refresh_request ''r1'',
                          \<lparr> fq_url = API_BASE_URL @ ''/transactions'', fq_method = None,
                            fq_authorization = Some ''new'', fq_body = None \<rparr>] \<rparr>)" for n
    by (simp add: refresh_call retry_without_stream plain_response_def ok_def
        del: retryRequest.simps)
  have a: "apiCall (Suc n) (example_server True) example_client ''/transactions''
           (Some ''POST'') (Some (Text ''B'')) =
         Some (Thrown TypeError,
               example_client \<lparr> ls_token := Some ''new'', ls_refreshToken := Some ''r2'',
                 sent := [original_request, refresh_request ''r1''] \<rparr>)" for n
    by (simp only: apiCall_def original_request_eq first_call h1 prod.case outcome.case)
  have b: "apiCall (Suc (Suc n)) (example_server False) example_client ''/transactions''
           (Some ''POST'') (Some (Text ''B'')) =
         Some (Returned \<lparr> j_error = None, j_message = Some ''Transaction created successfully'',
                           j_token = None, j_refreshToken = None \<rparr>,
               example_client \<lparr> ls_token := Some ''new'', ls_refreshToken := Some ''r2'',
                 sent := [original_request, refresh_request ''r1'',
                          \<lparr> fq_url = API_BASE_URL @ ''/transactions'', fq_method = None,
                            fq_authorization = Some ''new'', fq_body = None \<rparr>] \<rparr>)" for n
    by (simp only: apiCall_def original_request_eq first_call h2 prod.case outcome.case)
  from a b looping_never_returns show ?thesis by blast
qed

end
